theory Spec2Isabelle
  imports Main "HOL-Library.Sublist"
begin

section \<open>Grab-and-Go: the scraping pipeline and the delivery guard of popup.js\<close>

text \<open>
  A shallow embedding of \<^verbatim>\<open>src/popup.js\<close>. The host page is a tree of nodes; every helper
  of \<^verbatim>\<open>getSystemData\<close> is a function on that tree which returns the list of effects it
  performs (console lines and document queries) together with its value. The click handler
  of the Discord button is a transition function on the state of the popup.

  Strings are lists of 8-bit characters, read as UTF-16 code units below 256, so the pages
  covered are those whose text is Latin-1; \<open>length\<close> is then JavaScript's \<^verbatim>\<open>.length\<close>.
\<close>

subsection \<open>String primitives of the host language\<close>

text \<open>The white space and line terminators that \<^verbatim>\<open>String.prototype.trim\<close>, \<^verbatim>\<open>parseInt\<close>
  and \<^verbatim>\<open>Number\<close> strip, among the code units below 256.\<close>

definition is_space :: "char \<Rightarrow> bool" where
  "is_space c = (c \<in> set [CHR 0x09, CHR 0x0A, CHR 0x0B, CHR 0x0C, CHR 0x0D, CHR 0x20, CHR 0xA0])"

definition trim :: "string \<Rightarrow> string" where
  "trim s = rev (dropWhile is_space (rev (dropWhile is_space s)))"

fun starts_with :: "string \<Rightarrow> string \<Rightarrow> bool" where
  "starts_with s [] = True"
| "starts_with [] (p # ps) = False"
| "starts_with (c # cs) (p # ps) = (c = p \<and> starts_with cs ps)"

text \<open>\<^verbatim>\<open>s.includes(sub)\<close>\<close>

fun includes_str :: "string \<Rightarrow> string \<Rightarrow> bool" where
  "includes_str [] sub = (sub = [])"
| "includes_str (c # cs) sub = (starts_with (c # cs) sub \<or> includes_str cs sub)"

definition is_digit :: "char \<Rightarrow> bool" where
  "is_digit c = (c \<in> set ''0123456789'')"

definition is_hex_digit :: "char \<Rightarrow> bool" where
  "is_hex_digit c = (c \<in> set ''0123456789abcdefABCDEF'')"

definition is_octal_digit :: "char \<Rightarrow> bool" where
  "is_octal_digit c = (c \<in> set ''01234567'')"

definition is_binary_digit :: "char \<Rightarrow> bool" where
  "is_binary_digit c = (c \<in> set ''01'')"

text \<open>\<^verbatim>\<open>toUpperCase\<close> and \<^verbatim>\<open>toLowerCase\<close> on the ASCII letters. A code unit from 128 to 255
  is kept: its image under the host's case mappings is never an ASCII letter other than
  through \<^verbatim>\<open>U+00DF\<close>, whose upper case \<^verbatim>\<open>SS\<close> occurs in no string the code compares with.\<close>

definition lower_letters :: string where
  "lower_letters = ''abcdefghijklmnopqrstuvwxyz''"

definition upper_letters :: string where
  "upper_letters = ''ABCDEFGHIJKLMNOPQRSTUVWXYZ''"

definition toUpperCase :: "string \<Rightarrow> string" where
  "toUpperCase s =
     map (\<lambda>c. case map_of (zip lower_letters upper_letters) c of Some u \<Rightarrow> u | None \<Rightarrow> c) s"

definition toLowerCase :: "string \<Rightarrow> string" where
  "toLowerCase s =
     map (\<lambda>c. case map_of (zip upper_letters lower_letters) c of Some l \<Rightarrow> l | None \<Rightarrow> c) s"

text \<open>\<^verbatim>\<open>isNaN(parseInt(s))\<close>: leading white space and one sign are skipped, a prefix
  \<^verbatim>\<open>0x\<close> switches to radix 16 and is dropped, and the result is \<^verbatim>\<open>NaN\<close> exactly when no
  digit of the radix follows.\<close>

definition strip_sign :: "string \<Rightarrow> string" where
  "strip_sign s = (case s of [] \<Rightarrow> [] | c # r \<Rightarrow> if c = CHR ''+'' \<or> c = CHR ''-'' then r else s)"

definition parseInt_isNaN :: "string \<Rightarrow> bool" where
  "parseInt_isNaN s =
     (case strip_sign (dropWhile is_space s) of
        [] \<Rightarrow> True
      | [a] \<Rightarrow> \<not> is_digit a
      | a # b # r \<Rightarrow>
          if a = CHR ''0'' \<and> (b = CHR ''x'' \<or> b = CHR ''X'')
          then (case r of [] \<Rightarrow> True | h # _ \<Rightarrow> \<not> is_hex_digit h)
          else \<not> is_digit a)"

text \<open>\<^verbatim>\<open>isNaN(s)\<close> on a string: \<^verbatim>\<open>Number(s)\<close> is a number exactly when the trimmed string
  is empty, a \<^verbatim>\<open>StrDecimalLiteral\<close> or a \<^verbatim>\<open>NonDecimalIntegerLiteral\<close>.\<close>

definition exponent_part :: "string \<Rightarrow> bool" where
  "exponent_part s =
     (case s of
        [] \<Rightarrow> True
      | c # r \<Rightarrow> (c = CHR ''e'' \<or> c = CHR ''E'') \<and> strip_sign r \<noteq> [] \<and> list_all is_digit (strip_sign r))"

definition unsigned_decimal :: "string \<Rightarrow> bool" where
  "unsigned_decimal u =
     (u = ''Infinity'' \<or>
      (let ip = takeWhile is_digit u; r = dropWhile is_digit u
       in case r of
            [] \<Rightarrow> ip \<noteq> []
          | c # r2 \<Rightarrow>
              if c = CHR ''.''
              then (ip \<noteq> [] \<or> takeWhile is_digit r2 \<noteq> []) \<and> exponent_part (dropWhile is_digit r2)
              else ip \<noteq> [] \<and> exponent_part r))"

definition non_decimal_integer :: "string \<Rightarrow> bool" where
  "non_decimal_integer s =
     (case s of
        a # b # r \<Rightarrow>
          a = CHR ''0'' \<and> r \<noteq> [] \<and>
          ((b = CHR ''x'' \<or> b = CHR ''X'') \<and> list_all is_hex_digit r \<or>
           (b = CHR ''o'' \<or> b = CHR ''O'') \<and> list_all is_octal_digit r \<or>
           (b = CHR ''b'' \<or> b = CHR ''B'') \<and> list_all is_binary_digit r)
      | _ \<Rightarrow> False)"

definition isNaN_string :: "string \<Rightarrow> bool" where
  "isNaN_string s =
     (let t = trim s
      in t \<noteq> [] \<and> \<not> unsigned_decimal (strip_sign t) \<and> \<not> non_decimal_integer t)"

text \<open>\<^verbatim>\<open>s.match(/-?\d\.\d/)\<close>: the leftmost match, the sign taken when it is there.\<close>

definition digit_dot_digit :: "string \<Rightarrow> bool" where
  "digit_dot_digit s =
     (case s of a # b # d # _ \<Rightarrow> is_digit a \<and> b = CHR ''.'' \<and> is_digit d | _ \<Rightarrow> False)"

fun match_security :: "string \<Rightarrow> string option" where
  "match_security [] = None"
| "match_security (c # cs) =
     (if c = CHR ''-'' \<and> digit_dot_digit cs then Some (c # take 3 cs)
      else if digit_dot_digit (c # cs) then Some (take 3 (c # cs))
      else match_security cs)"

text \<open>\<^verbatim>\<open>s.match(/C[1-6]/)\<close>\<close>

fun match_connection :: "string \<Rightarrow> string option" where
  "match_connection [] = None"
| "match_connection (c # cs) =
     (case cs of
        [] \<Rightarrow> None
      | d # _ \<Rightarrow> if c = CHR ''C'' \<and> d \<in> set ''123456'' then Some [c, d] else match_connection cs)"

text \<open>The decimal digits of a number, as a template literal prints it.\<close>

fun string_of_nat :: "nat \<Rightarrow> string" where
  "string_of_nat n =
     (if n < 10 then [''0123456789'' ! n]
      else string_of_nat (n div 10) @ [''0123456789'' ! (n mod 10)])"

text \<open>Truthiness of a value that is \<^verbatim>\<open>null\<close> or a string.\<close>

definition truthy :: "string option \<Rightarrow> bool" where
  "truthy v = (case v of None \<Rightarrow> False | Some s \<Rightarrow> s \<noteq> [])"

text \<open>\<^verbatim>\<open>parts.join(sep)\<close>\<close>

fun join :: "string \<Rightarrow> string list \<Rightarrow> string" where
  "join sep [] = []"
| "join sep [x] = x"
| "join sep (x # y # ys) = x @ sep @ join sep (y # ys)"

subsection \<open>The document\<close>

text \<open>An element carries its lower-case tag name, its attributes, the two computed style
  properties the code reads (\<^verbatim>\<open>display\<close>, \<^verbatim>\<open>visibility\<close>) and its children.\<close>

datatype node =
    TextNode string
  | Element (tagName: string) (attrs: "(string \<times> string) list")
      (display: string) (visibility: string) (childNodes: "node list")

fun textContent :: "node \<Rightarrow> string" where
  "textContent (TextNode s) = s"
| "textContent (Element t a d v cs) = concat (map textContent cs)"

fun is_element :: "node \<Rightarrow> bool" where
  "is_element (TextNode s) = False"
| "is_element (Element t a d v cs) = True"

text \<open>An element at its place in the tree: its ancestors (nearest first), the nodes before it
  under its parent (nearest first), itself, and the nodes after it.\<close>

record place =
  ancestors :: "node list"
  before :: "node list"
  self :: node
  after :: "node list"

text \<open>The elements of a subtree in document order.\<close>

fun elements_of :: "node list \<Rightarrow> node list \<Rightarrow> node list \<Rightarrow> node \<Rightarrow> place list"
  and elements_in :: "node list \<Rightarrow> node list \<Rightarrow> node list \<Rightarrow> place list" where
  "elements_of anc bef aft (TextNode s) = []"
| "elements_of anc bef aft (Element t a d v cs) =
     \<lparr>ancestors = anc, before = bef, self = Element t a d v cs, after = aft\<rparr>
       # elements_in (Element t a d v cs # anc) [] cs"
| "elements_in anc bef [] = []"
| "elements_in anc bef (c # cs) = elements_of anc bef cs c @ elements_in anc (c # bef) cs"

definition document_elements :: "node \<Rightarrow> place list" where
  "document_elements doc = elements_of [] [] [] doc"

definition descendants :: "place \<Rightarrow> place list" where
  "descendants p = elements_in (self p # ancestors p) [] (childNodes (self p))"

definition getAttribute :: "node \<Rightarrow> string \<Rightarrow> string option" where
  "getAttribute n a = (case n of TextNode s \<Rightarrow> None | Element t as d v cs \<Rightarrow> map_of as a)"

text \<open>The tokens of a class attribute, split at ASCII white space.\<close>

definition is_ascii_space :: "char \<Rightarrow> bool" where
  "is_ascii_space c = (c \<in> set [CHR 0x09, CHR 0x0A, CHR 0x0C, CHR 0x0D, CHR 0x20])"

fun tokens :: "string \<Rightarrow> string \<Rightarrow> string list" where
  "tokens cur [] = (if cur = [] then [] else [cur])"
| "tokens cur (c # cs) =
     (if is_ascii_space c then (if cur = [] then tokens [] cs else cur # tokens [] cs)
      else tokens (cur @ [c]) cs)"

definition classList :: "node \<Rightarrow> string list" where
  "classList n = (case getAttribute n ''class'' of None \<Rightarrow> [] | Some v \<Rightarrow> tokens [] v)"

text \<open>The selectors the code uses: a list of alternatives, each a chain of simple selectors
  joined by the descendant combinator.\<close>

datatype simple =
    Tag string
  | Class string
  | AttrContains string string
  | AttrEquals string string
  | Universal

type_synonym selector = "simple list list"

fun matches_simple :: "simple \<Rightarrow> node \<Rightarrow> bool" where
  "matches_simple (Tag t) n = (is_element n \<and> tagName n = t)"
| "matches_simple (Class c) n = (c \<in> set (classList n))"
| "matches_simple (AttrContains a v) n =
     (case getAttribute n a of None \<Rightarrow> False | Some x \<Rightarrow> v \<noteq> [] \<and> includes_str x v)"
| "matches_simple (AttrEquals a v) n = (getAttribute n a = Some v)"
| "matches_simple Universal n = is_element n"

fun matches_chain :: "node list \<Rightarrow> simple list \<Rightarrow> bool" where
  "matches_chain anc [] = True"
| "matches_chain [] (s # ss) = False"
| "matches_chain (a # anc) (s # ss) =
     (matches_simple s a \<and> matches_chain anc ss \<or> matches_chain anc (s # ss))"

definition matches_complex :: "place \<Rightarrow> simple list \<Rightarrow> bool" where
  "matches_complex p cx =
     (case rev cx of
        [] \<Rightarrow> False
      | s # ss \<Rightarrow> matches_simple s (self p) \<and> matches_chain (ancestors p) ss)"

definition matches :: "selector \<Rightarrow> place \<Rightarrow> bool" where
  "matches sel p = list_ex (matches_complex p) sel"

text \<open>\<^verbatim>\<open>querySelectorAll\<close> on the document and on an element: the matching elements in
  document order, each once.\<close>

definition querySelectorAll :: "node \<Rightarrow> selector \<Rightarrow> place list" where
  "querySelectorAll doc sel = filter (matches sel) (document_elements doc)"

definition element_querySelectorAll :: "place \<Rightarrow> selector \<Rightarrow> place list" where
  "element_querySelectorAll p sel = filter (matches sel) (descendants p)"

definition querySelector :: "node \<Rightarrow> selector \<Rightarrow> place option" where
  "querySelector doc sel = (case querySelectorAll doc sel of [] \<Rightarrow> None | p # _ \<Rightarrow> Some p)"

text \<open>The source text of a selector, as the log lines print it.\<close>

fun show_simple :: "simple \<Rightarrow> string" where
  "show_simple (Tag t) = t"
| "show_simple (Class c) = ''.'' @ c"
| "show_simple (AttrContains a v) = ''['' @ a @ ''*='' @ [CHR 0x22] @ v @ [CHR 0x22] @ '']''"
| "show_simple (AttrEquals a v) = ''['' @ a @ ''='' @ [CHR 0x22] @ v @ [CHR 0x22] @ '']''"
| "show_simple Universal = ''*''"

definition show_selector :: "selector \<Rightarrow> string" where
  "show_selector sel = join '', '' (map (\<lambda>cx. join '' '' (map show_simple cx)) sel)"

subsection \<open>Effects\<close>

record destination =
  name :: string
  jumps :: string

text \<open>An argument of a console call: a string, a number, the array of destinations,
  \<^verbatim>\<open>null\<close> or an error object (a failed transport, a status that is not a success, a body
  that does not parse). An effect is a \<^verbatim>\<open>console.log\<close> or \<^verbatim>\<open>console.error\<close> call with its
  arguments, or a query of the document (\<^verbatim>\<open>document.querySelectorAll\<close>,
  \<^verbatim>\<open>document.querySelector\<close>) with its selector.\<close>

datatype failure = TransportError | BadStatus nat | BadJson

datatype logarg = Str string | Num nat | Dests "destination list" | Null | Err failure

datatype event = Log "logarg list" | LogError "logarg list" | Query selector

subsection \<open>extractSystemName\<close>

definition headerSelectors :: "selector list" where
  "headerSelectors =
     [[[Tag ''main'', Tag ''header'', Tag ''h6'']],
      [[Tag ''header'', Tag ''h6'']],
      [[Class ''MuiPaper-root'', Tag ''header'', Tag ''h6'']],
      [[AttrContains ''class'' ''header'', Tag ''h6'']]]"

definition name_like :: "string \<Rightarrow> bool" where
  "name_like text =
     (text \<noteq> [] \<and> 0 < length text \<and> length text < 30 \<and> \<not> includes_str text [CHR 0x0A])"

fun first_name_like :: "place list \<Rightarrow> string option" where
  "first_name_like [] = None"
| "first_name_like (element # elements) =
     (let text = trim (textContent (self element))
      in if name_like text then Some text else first_name_like elements)"

fun try_header_selectors :: "node \<Rightarrow> selector list \<Rightarrow> event list \<times> string option" where
  "try_header_selectors doc [] = ([], None)"
| "try_header_selectors doc (sel # sels) =
     (case first_name_like (querySelectorAll doc sel) of
        Some text \<Rightarrow>
          ([Query sel,
            Log [Str (''Found system name using selector '' @ [CHR 0x22] @ show_selector sel
                      @ [CHR 0x22] @ '': '' @ text)]],
           Some text)
      | None \<Rightarrow>
          (case try_header_selectors doc sels of (evs, r) \<Rightarrow> (Query sel # evs, r)))"

fun first_h6_name :: "place list \<Rightarrow> string option" where
  "first_h6_name [] = None"
| "first_h6_name (h6 # rest) =
     (let text = trim (textContent (self h6))
      in if name_like text \<and>
            \<not> includes_str text ''SHORTEST'' \<and>
            \<not> includes_str text ''SECURE'' \<and>
            \<not> includes_str text ''Settings'' \<and>
            \<not> includes_str text ''Route''
         then Some text
         else first_h6_name rest)"

definition extractSystemName :: "node \<Rightarrow> event list \<times> string option" where
  "extractSystemName doc =
     (case try_header_selectors doc headerSelectors of
        (evs, Some text) \<Rightarrow> (Log [Str ''Extracting system name...''] # evs, Some text)
      | (evs, None) \<Rightarrow>
          (case first_h6_name (querySelectorAll doc [[Tag ''h6'']]) of
             Some text \<Rightarrow>
               (Log [Str ''Extracting system name...''] # evs
                  @ [Query [[Tag ''h6'']], Log [Str (''Found system name in h6: '' @ text)]],
                Some text)
           | None \<Rightarrow>
               (Log [Str ''Extracting system name...''] # evs
                  @ [Query [[Tag ''h6'']], Log [Str ''Could not find system name'']],
                None)))"

subsection \<open>extractSecurityAndConnection\<close>

record classification =
  securityRating :: string
  connectionType :: "string option"

text \<open>The two variables \<^verbatim>\<open>securityRating\<close> and \<^verbatim>\<open>connectionType\<close> while the strategies
  run: \<^verbatim>\<open>null\<close> or a string.\<close>

type_synonym fields = "string option \<times> string option"

definition mapNodes_selector :: selector where
  "mapNodes_selector = [[AttrContains ''class'' ''node''], [AttrContains ''class'' ''system'']]"

definition systemType_selector :: selector where
  "systemType_selector = [[Class ''system-type''], [AttrContains ''class'' ''system-type'']]"

definition headerArea_selector :: selector where
  "headerArea_selector = [[Tag ''main'', Tag ''header''], [Tag ''header'']]"

text \<open>Strategy 1: the first map node whose text includes the system name; the loop breaks
  there.\<close>

fun first_system_node :: "string \<Rightarrow> place list \<Rightarrow> string option" where
  "first_system_node systemName [] = None"
| "first_system_node systemName (node # nodes) =
     (let nodeText = textContent (self node)
      in if includes_str nodeText systemName then Some nodeText
         else first_system_node systemName nodes)"

definition security_strategy1 :: "node \<Rightarrow> string \<Rightarrow> event list \<times> fields" where
  "security_strategy1 doc systemName =
     (case first_system_node systemName (querySelectorAll doc mapNodes_selector) of
        None \<Rightarrow> ([Query mapNodes_selector], (None, None))
      | Some nodeText \<Rightarrow>
          ([Query mapNodes_selector, Log [Str ''Found system node on map:'', Str nodeText]]
             @ (case match_security nodeText of
                  Some s \<Rightarrow> [Log [Str (''Found security rating on node: '' @ s)]]
                | None \<Rightarrow> [])
             @ (case match_connection nodeText of
                  Some c \<Rightarrow> [Log [Str (''Found connection type on node: '' @ c)]]
                | None \<Rightarrow> []),
           (match_security nodeText, match_connection nodeText)))"

text \<open>Strategy 2: every system-type element is a connection class or else a security
  rating; a later element overwrites an earlier one.\<close>

fun systemType_loop :: "place list \<Rightarrow> fields \<Rightarrow> event list \<times> fields" where
  "systemType_loop [] st = ([], st)"
| "systemType_loop (element # elements) (sec, conn) =
     (let text = trim (textContent (self element))
      in case match_connection text of
           Some c \<Rightarrow>
             (case systemType_loop elements (sec, Some c) of
                (evs, st) \<Rightarrow> (Log [Str (''Found connection type in system-type: '' @ c)] # evs, st))
         | None \<Rightarrow>
             (case match_security text of
                Some s \<Rightarrow>
                  (case systemType_loop elements (Some s, conn) of
                     (evs, st) \<Rightarrow>
                       (Log [Str (''Found security rating in system-type: '' @ s)] # evs, st))
              | None \<Rightarrow> systemType_loop elements (sec, conn)))"

definition security_strategy2 :: "node \<Rightarrow> fields \<Rightarrow> event list \<times> fields" where
  "security_strategy2 doc st =
     (case systemType_loop (querySelectorAll doc systemType_selector) st of
        (evs, st') \<Rightarrow> (Query systemType_selector # evs, st'))"

text \<open>Strategy 3: the text of the header area, for the fields that are still unset.\<close>

definition security_strategy3 :: "node \<Rightarrow> fields \<Rightarrow> event list \<times> fields" where
  "security_strategy3 doc st =
     (case querySelector doc headerArea_selector of
        None \<Rightarrow> ([Query headerArea_selector], st)
      | Some headerArea \<Rightarrow>
          (let headerText = textContent (self headerArea);
               (evs1, sec) =
                 (if \<not> truthy (fst st)
                  then (case match_security headerText of
                          Some s \<Rightarrow> ([Log [Str (''Found security rating in header: '' @ s)]], Some s)
                        | None \<Rightarrow> ([], fst st))
                  else ([], fst st));
               (evs2, conn) =
                 (if \<not> truthy (snd st)
                  then (case match_connection headerText of
                          Some c \<Rightarrow> ([Log [Str (''Found connection type in header: '' @ c)]], Some c)
                        | None \<Rightarrow> ([], snd st))
                  else ([], snd st))
           in (Query headerArea_selector # evs1 @ evs2, (sec, conn))))"

definition security_default :: "string option \<Rightarrow> event list \<times> string" where
  "security_default sec =
     (case sec of
        None \<Rightarrow> ([Log [Str ''Could not find security rating'']], ''Unknown'')
      | Some s \<Rightarrow>
          if s = [] then ([Log [Str ''Could not find security rating'']], ''Unknown'')
          else ([], s))"

definition connection_log :: "string option \<Rightarrow> event list" where
  "connection_log conn =
     (case conn of
        None \<Rightarrow> [Log [Str ''No wormhole connection type found (system may be direct K-space)'']]
      | Some c \<Rightarrow>
          if c = []
          then [Log [Str ''No wormhole connection type found (system may be direct K-space)'']]
          else [Log [Str (''Using connection type: '' @ c)]])"

definition extractSecurityAndConnection :: "node \<Rightarrow> string \<Rightarrow> event list \<times> classification" where
  "extractSecurityAndConnection doc systemName =
     (let (evs1, st1) = security_strategy1 doc systemName;
          (evs2, st2) =
            (if \<not> truthy (fst st1) \<and> \<not> truthy (snd st1) then security_strategy2 doc st1
             else ([], st1));
          (evs3, st3) =
            (if \<not> truthy (fst st2) \<or> \<not> truthy (snd st2) then security_strategy3 doc st2
             else ([], st2));
          (evs4, rating) = security_default (fst st3)
      in (Log [Str ''Extracting security rating and connection type...'']
            # evs1 @ evs2 @ evs3 @ evs4 @ connection_log (snd st3),
          \<lparr>securityRating = rating, connectionType = snd st3\<rparr>))"

subsection \<open>detectActiveTab\<close>

definition tabButtons_selector :: selector where
  "tabButtons_selector = [[Tag ''button''], [AttrEquals ''role'' ''tab'']]"

definition isActive :: "node \<Rightarrow> bool" where
  "isActive button =
     (getAttribute button ''aria-selected'' = Some ''true'' \<or>
      ''Mui-selected'' \<in> set (classList button) \<or>
      ''active'' \<in> set (classList button) \<or>
      getAttribute button ''data-selected'' \<noteq> None)"

fun first_active_tab :: "place list \<Rightarrow> string option" where
  "first_active_tab [] = None"
| "first_active_tab (button # buttons) =
     (let text = toUpperCase (trim (textContent (self button)))
      in if (text = ''SHORTEST'' \<or> text = ''SECURE'') \<and> isActive (self button) then Some text
         else first_active_tab buttons)"

definition detectActiveTab :: "node \<Rightarrow> event list \<times> string" where
  "detectActiveTab doc =
     (case first_active_tab (querySelectorAll doc tabButtons_selector) of
        Some text \<Rightarrow>
          ([Log [Str ''Detecting active tab...''], Query tabButtons_selector,
            Log [Str (''Active tab detected: '' @ text)]],
           text)
      | None \<Rightarrow>
          ([Log [Str ''Detecting active tab...''], Query tabButtons_selector,
            Log [Str ''Could not detect active tab, defaulting to SHORTEST'']],
           ''SHORTEST''))"

subsection \<open>extractDestinationFromElement\<close>

definition textElements_selector :: selector where
  "textElements_selector = [[Tag ''p''], [Tag ''span''], [AttrContains ''class'' ''Typography'']]"

text \<open>The loop over the text elements, on the variables \<^verbatim>\<open>hubName\<close> and \<^verbatim>\<open>jumps\<close>: the
  last value of each kind wins.\<close>

fun textElements_loop :: "place list \<Rightarrow> string option \<times> string option \<Rightarrow> string option \<times> string option" where
  "textElements_loop [] st = st"
| "textElements_loop (textEl # rest) (hubName, jumps') =
     (let text = trim (textContent (self textEl))
      in if \<not> parseInt_isNaN text \<and> length text \<le> 3 then textElements_loop rest (hubName, Some text)
         else if text \<noteq> [] \<and> 0 < length text \<and> length text < 30 \<and> isNaN_string text
         then (if \<not> includes_str text ''from'' \<and>
                  \<not> includes_str text ''jumps'' \<and>
                  \<not> includes_str (toLowerCase text) ''route''
               then textElements_loop rest (Some text, jumps')
               else textElements_loop rest (hubName, jumps'))
         else textElements_loop rest (hubName, jumps'))"

text \<open>No call in the body of the \<^verbatim>\<open>try\<close> block throws on an element, so the \<^verbatim>\<open>catch\<close>
  branch is not a branch of the model.\<close>

definition extractDestinationFromElement :: "place \<Rightarrow> event list \<times> destination option" where
  "extractDestinationFromElement element =
     (case textElements_loop (element_querySelectorAll element textElements_selector) (None, None) of
        (Some hubName, Some jumps') \<Rightarrow>
          if hubName \<noteq> [] \<and> jumps' \<noteq> []
          then ([Log [Str (''  Found: '' @ hubName @ '' - '' @ jumps' @ '' jumps'')]],
                Some \<lparr>name = hubName, jumps = jumps'\<rparr>)
          else ([], None)
      | _ \<Rightarrow> ([], None))"

subsection \<open>extractAllDestinationsFromContainer\<close>

definition commonHubs :: "string list" where
  "commonHubs = [''Jita'', ''Hek'', ''Amarr'', ''Rens'', ''Dodixie'', ''Stacmon'']"

definition previousElementSibling :: "place \<Rightarrow> node option" where
  "previousElementSibling p = find is_element (before p)"

definition nextElementSibling :: "place \<Rightarrow> node option" where
  "nextElementSibling p = find is_element (after p)"

text \<open>\<^verbatim>\<open>element.parentElement.children\<close>, for an element that has a parent.\<close>

definition parentChildren :: "place \<Rightarrow> node list" where
  "parentChildren p = filter is_element (rev (before p) @ [self p] @ after p)"

text \<open>The number looked for near a hub name: the previous sibling, then the next one, then
  the first child of the parent whose text is a number of at most three characters.\<close>

definition nearby_jumps :: "place \<Rightarrow> string option" where
  "nearby_jumps element =
     (let jumps1 =
            (case previousElementSibling element of
               None \<Rightarrow> None
             | Some sibling \<Rightarrow>
                 (let siblingText = trim (textContent sibling)
                  in if \<not> parseInt_isNaN siblingText then Some siblingText else None));
          jumps2 =
            (if \<not> truthy jumps1
             then (case nextElementSibling element of
                     None \<Rightarrow> jumps1
                   | Some sibling \<Rightarrow>
                       (let siblingText = trim (textContent sibling)
                        in if \<not> parseInt_isNaN siblingText then Some siblingText else jumps1))
             else jumps1)
      in if \<not> truthy jumps2 \<and> ancestors element \<noteq> []
         then (case find (\<lambda>child. \<not> parseInt_isNaN (trim (textContent child)) \<and>
                                   length (trim (textContent child)) \<le> 3)
                      (parentChildren element) of
                 None \<Rightarrow> jumps2
               | Some child \<Rightarrow> Some (trim (textContent child)))
         else jumps2)"

text \<open>The inner loop over the hub names, for one element with trimmed text \<open>text\<close>, and the
  outer loop over the elements; both on the console lines and the array \<^verbatim>\<open>destinations\<close>.\<close>

fun commonHubs_loop ::
  "place \<Rightarrow> string \<Rightarrow> string list \<Rightarrow> event list \<times> destination list \<Rightarrow> event list \<times> destination list" where
  "commonHubs_loop element text [] acc = acc"
| "commonHubs_loop element text (hub # hubs) (evs, dests) =
     (if text = hub
      then (case nearby_jumps element of
              None \<Rightarrow> commonHubs_loop element text hubs (evs, dests)
            | Some jumps' \<Rightarrow>
                if jumps' \<noteq> [] \<and> find (\<lambda>d. name d = hub) dests = None
                then commonHubs_loop element text hubs
                       (evs @ [Log [Str (''  Found: '' @ hub @ '' - '' @ jumps' @ '' jumps'')]],
                        dests @ [\<lparr>name = hub, jumps = jumps'\<rparr>])
                else commonHubs_loop element text hubs (evs, dests))
      else commonHubs_loop element text hubs (evs, dests))"

fun allElements_loop :: "place list \<Rightarrow> event list \<times> destination list \<Rightarrow> event list \<times> destination list" where
  "allElements_loop [] acc = acc"
| "allElements_loop (element # elements) acc =
     allElements_loop elements
       (commonHubs_loop element (trim (textContent (self element))) commonHubs acc)"

definition extractAllDestinationsFromContainer :: "place \<Rightarrow> event list \<times> destination list" where
  "extractAllDestinationsFromContainer container =
     allElements_loop (element_querySelectorAll container [[Universal]]) ([], [])"

subsection \<open>extractDestinations\<close>

definition hubSummaries_selector :: selector where
  "hubSummaries_selector = [[Class ''route-hub-summary''], [AttrContains ''class'' ''route-hub-summary'']]"

definition accordions_selector :: selector where
  "accordions_selector = [[AttrContains ''class'' ''MuiAccordion'']]"

definition panels_selector :: selector where
  "panels_selector = [[AttrEquals ''role'' ''tabpanel''], [AttrContains ''class'' ''panel'']]"

text \<open>The loop of strategies 1 and 2: every element that gives a destination appends it.\<close>

fun summaries_loop :: "place list \<Rightarrow> event list \<times> destination list" where
  "summaries_loop [] = ([], [])"
| "summaries_loop (summary # rest) =
     (case extractDestinationFromElement summary of
        (evs, destination) \<Rightarrow>
          (case summaries_loop rest of
             (evs', dests) \<Rightarrow>
               (evs @ evs', (case destination of None \<Rightarrow> dests | Some d \<Rightarrow> d # dests))))"

text \<open>The loop of strategy 3: every visible panel appends all it holds.\<close>

fun panels_loop :: "place list \<Rightarrow> event list \<times> destination list" where
  "panels_loop [] = ([], [])"
| "panels_loop (panel # rest) =
     (case panels_loop rest of
        (evs', dests) \<Rightarrow>
          if display (self panel) \<noteq> ''none'' \<and> visibility (self panel) \<noteq> ''hidden''
          then (case extractAllDestinationsFromContainer panel of
                  (evs, panelDestinations) \<Rightarrow> (evs @ evs', panelDestinations @ dests))
          else (evs', dests))"

definition extractDestinations :: "node \<Rightarrow> string \<Rightarrow> event list \<times> destination list" where
  "extractDestinations doc activeTab =
     (let hubSummaries = querySelectorAll doc hubSummaries_selector;
          (evs1, dests1) = summaries_loop hubSummaries;
          (evs2, dests2) =
            (if length dests1 = 0
             then (case summaries_loop (querySelectorAll doc accordions_selector) of
                     (evs, dests) \<Rightarrow>
                       (Log [Str ''Trying MuiAccordion strategy...''] # Query accordions_selector # evs,
                        dests1 @ dests))
             else ([], dests1));
          (evs3, dests3) =
            (if length dests2 = 0
             then (case panels_loop (querySelectorAll doc panels_selector) of
                     (evs, dests) \<Rightarrow>
                       (Log [Str ''Trying panel area strategy...''] # Query panels_selector # evs,
                        dests2 @ dests))
             else ([], dests2))
      in ([Log [Str (''Extracting destinations from '' @ activeTab @ '' tab...'')],
           Query hubSummaries_selector,
           Log [Str (''Found '' @ string_of_nat (length hubSummaries) @ '' route-hub-summary elements'')]]
            @ evs1 @ evs2 @ evs3
            @ [Log [Str (''Extracted '' @ string_of_nat (length dests3) @ '' destinations:''), Dests dests3]],
          dests3))"

subsection \<open>getSystemData\<close>

record extraction =
  success :: bool
  error :: "string option"
  header :: string
  destinations :: string

text \<open>The check mark \<^verbatim>\<open>U+2713\<close> that starts some console lines, in UTF-8.\<close>

definition check_mark :: string where
  "check_mark = [CHR 0xE2, CHR 0x9C, CHR 0x93]"

text \<open>The main body. No helper throws, so the \<^verbatim>\<open>catch\<close> branch of the outer \<^verbatim>\<open>try\<close> is
  not a branch of the model.\<close>

definition getSystemData :: "node \<Rightarrow> event list \<times> extraction" where
  "getSystemData doc =
     (case extractSystemName doc of
        (evs1, found) \<Rightarrow>
          if \<not> truthy found
          then (Log [Str ''=== Starting System Data Extraction ===''] # evs1
                  @ [Log [Str ''No system name found - no system selected'']],
                \<lparr>success = False, error = Some ''No system selected.'',
                 header = ''No system selected'', destinations = []\<rparr>)
          else
            (let systemName = (case found of None \<Rightarrow> [] | Some s \<Rightarrow> s);
                 (evs2, cls) = extractSecurityAndConnection doc systemName;
                 (evs3, activeTab) = detectActiveTab doc;
                 (evs4, dests) = extractDestinations doc activeTab;
                 evs =
                   Log [Str ''=== Starting System Data Extraction ===''] # evs1
                     @ [Log [Str (check_mark @ '' System name:''), Str systemName]]
                     @ evs2
                     @ [Log [Str (check_mark @ '' Security rating:''), Str (securityRating cls)],
                        Log [Str (check_mark @ '' Connection type:''),
                             Str (if truthy (connectionType cls)
                                  then (case connectionType cls of None \<Rightarrow> [] | Some c \<Rightarrow> c)
                                  else ''None'')]]
                     @ evs3
                     @ [Log [Str (check_mark @ '' Active tab:''), Str activeTab]]
                     @ evs4
                     @ [Log [Str (check_mark @ '' Destinations:''), Dests dests]]
             in if length dests = 0
                then (evs @ [Log [Str ''No destinations found'']],
                      \<lparr>success = False,
                       error = Some ''Could not extract destination data. Please ensure the tab is expanded.'',
                       header =
                         (if truthy (connectionType cls)
                          then systemName @ '', '' @ securityRating cls @ '', ''
                                 @ (case connectionType cls of None \<Rightarrow> [] | Some c \<Rightarrow> c)
                          else systemName @ '', '' @ securityRating cls),
                       destinations = []\<rparr>)
                else (evs @ [Log [Str ''=== Extraction Complete ==='']],
                      \<lparr>success = True, error = None,
                       header =
                         (if truthy (connectionType cls)
                          then systemName @ '', '' @ securityRating cls @ '', ''
                                 @ (case connectionType cls of None \<Rightarrow> [] | Some c \<Rightarrow> c) @ '',''
                          else systemName @ '', '' @ securityRating cls @ '',''),
                       destinations = join '', '' (map (\<lambda>d. name d @ '' '' @ jumps d) dests)\<rparr>)))"

text \<open>The text both buttons of the popup put together from the displayed header and
  destinations.\<close>

definition fullText :: "string \<Rightarrow> string \<Rightarrow> string" where
  "fullText header_text numbers = (if numbers \<noteq> [] then header_text @ '' '' @ numbers else header_text)"

subsection \<open>The Discord button\<close>

text \<open>An outbound call: \<^verbatim>\<open>fetch(webhookUrl, {method: 'POST', body: {content: data}})\<close>.\<close>

record request =
  url :: string
  content :: string
  requestId :: nat

text \<open>What comes back for a call: the transport fails, or a response arrives with its
  status, its \<^verbatim>\<open>content-length\<close> header and whether its body parses as JSON.\<close>

datatype response = TransportFailure | Response nat "string option" bool

text \<open>The promise chain inside \<^verbatim>\<open>sendToDiscord\<close>: the console lines, and the failure the
  promise is rejected with, if any.\<close>

definition sendToDiscord_then :: "request \<Rightarrow> response \<Rightarrow> event list \<times> failure option" where
  "sendToDiscord_then req r =
     (case r of
        TransportFailure \<Rightarrow>
          ([LogError [Str ''Error sending to Discord (requestId:'', Num (requestId req), Str ''):'',
                      Err TransportError]],
           Some TransportError)
      | Response status contentLength parses \<Rightarrow>
          if \<not> (200 \<le> status \<and> status \<le> 299)
          then ([LogError [Str ''Error sending to Discord (requestId:'', Num (requestId req), Str ''):'',
                           Err (BadStatus status)]],
                Some (BadStatus status))
          else if status = 204 \<or> contentLength = Some ''0''
          then ([Log [Str ''Message sent successfully for requestId:'', Num (requestId req)]], None)
          else if parses
          then ([Log [Str ''Message sent successfully for requestId:'', Num (requestId req)]], None)
          else ([Log [Str ''Message sent successfully for requestId:'', Num (requestId req)],
                 LogError [Str ''Error sending to Discord (requestId:'', Num (requestId req), Str ''):'',
                           Err BadJson]],
                Some BadJson))"

text \<open>The state of an opened popup: the two variables of the handler, the webhook input, the
  two displayed texts, and what the popup has done so far: the calls started (oldest first),
  those not yet settled, the alerts shown and the console.\<close>

record popup =
  isSendingToDiscord :: bool
  lastRequestId :: "nat option"
  webhookUrlInput :: string
  headerData :: string
  number :: string
  outbound :: "request list"
  outstanding :: "request list"
  alerts :: "string list"
  console :: "event list"

definition popup_opened :: "string \<Rightarrow> string \<Rightarrow> string \<Rightarrow> popup" where
  "popup_opened stored_url header_text numbers =
     \<lparr>isSendingToDiscord = False, lastRequestId = None, webhookUrlInput = stored_url,
      headerData = header_text, number = numbers, outbound = [], outstanding = [],
      alerts = [], console = []\<rparr>"

definition requestId_arg :: "nat option \<Rightarrow> logarg" where
  "requestId_arg r = (case r of None \<Rightarrow> Null | Some n \<Rightarrow> Num n)"

text \<open>The click handler, run at time \<open>now\<close> (\<^verbatim>\<open>Date.now()\<close>).\<close>

definition discord_click :: "nat \<Rightarrow> popup \<Rightarrow> popup" where
  "discord_click now s =
     (if isSendingToDiscord s
      then s\<lparr>console := console s @ [Log [Str ''Message is already being sent. Please wait.'']]\<rparr>
      else
        (let s1 = s\<lparr>isSendingToDiscord := True, lastRequestId := Some now,
                    console := console s @ [Log [Str ''Starting to send message to Discord...'', Num now]]\<rparr>;
             text = fullText (headerData s1) (number s1);
             webhookUrl = webhookUrlInput s1
         in if webhookUrl = [] \<or> trim webhookUrl = []
            then s1\<lparr>alerts := alerts s1 @ [''Please enter a Discord Webhook URL first!''],
                    isSendingToDiscord := False\<rparr>
            else s1\<lparr>console := console s1 @ [Log [Str ''Request to send message initiated:'', Num now]],
                    outbound := outbound s1 @ [\<lparr>url = webhookUrl, content = text, requestId = now\<rparr>],
                    outstanding := outstanding s1 @ [\<lparr>url = webhookUrl, content = text, requestId = now\<rparr>]\<rparr>))"

text \<open>The callbacks \<^verbatim>\<open>then\<close>, \<^verbatim>\<open>catch\<close> and \<^verbatim>\<open>finally\<close> of the handler, run when the
  outstanding call number \<open>i\<close> is answered by \<open>r\<close>.\<close>

definition discord_settled :: "nat \<Rightarrow> response \<Rightarrow> popup \<Rightarrow> popup" where
  "discord_settled i r s =
     (if i < length (outstanding s)
      then
        (case sendToDiscord_then (outstanding s ! i) r of
           (evs, failed) \<Rightarrow>
             (let s1 = s\<lparr>outstanding := take i (outstanding s) @ drop (Suc i) (outstanding s),
                         console := console s @ evs\<rparr>;
                  s2 = (case failed of
                          None \<Rightarrow>
                            s1\<lparr>console := console s1
                                  @ [Log [Str ''Message sent successfully.'', requestId_arg (lastRequestId s1)]]\<rparr>
                        | Some e \<Rightarrow>
                            s1\<lparr>console := console s1 @ [LogError [Str ''Error sending message:'', Err e]],
                               alerts := alerts s1 @ [''Failed to send to Discord. Check console for details.'']\<rparr>)
              in s2\<lparr>isSendingToDiscord := False,
                    console := console s2
                      @ [Log [Str ''Sending process finished for request:'', requestId_arg (lastRequestId s2)]]\<rparr>))
      else s)"

text \<open>What happens to an opened popup: a click on the button, an answer to an outstanding
  call, or the operator editing the webhook input.\<close>

datatype happening = Click nat | Answer nat response | EditWebhook string

fun step :: "popup \<Rightarrow> happening \<Rightarrow> popup" where
  "step s (Click now) = discord_click now s"
| "step s (Answer i r) = discord_settled i r s"
| "step s (EditWebhook v) = s\<lparr>webhookUrlInput := v\<rparr>"

definition run :: "popup \<Rightarrow> happening list \<Rightarrow> popup" where
  "run s hs = foldl step s hs"

subsection \<open>Concrete pages\<close>

text \<open>An element that is displayed, and a page whose content sits under \<^verbatim>\<open>main\<close>.\<close>

definition el :: "string \<Rightarrow> (string \<times> string) list \<Rightarrow> node list \<Rightarrow> node" where
  "el t a cs = Element t a ''block'' ''visible'' cs"

definition page :: "node list \<Rightarrow> node" where
  "page cs = el ''html'' [] [el ''body'' [] [el ''main'' [] cs]]"

definition hub_summary :: "string \<Rightarrow> string \<Rightarrow> node" where
  "hub_summary n j =
     el ''div'' [(''class'', ''route-hub-summary'')]
       [el ''span'' [] [TextNode n], el ''span'' [] [TextNode j]]"

definition egmur_header :: node where
  "egmur_header =
     el ''header'' []
       [el ''h6'' [] [TextNode ''Egmur''], el ''span'' [] [TextNode ''0.7''],
        el ''span'' [] [TextNode ''C4'']]"

text \<open>The page of the README's example: Egmur, 0.7, C4 and five hubs.\<close>

definition doc_egmur :: node where
  "doc_egmur =
     page [egmur_header, hub_summary ''Jita'' ''14'', hub_summary ''Hek'' ''16'',
           hub_summary ''Amarr'' ''5'', hub_summary ''Rens'' ''16'', hub_summary ''Dodixie'' ''10'']"

text \<open>The same system with the route tab collapsed, and a page with nothing selected.\<close>

definition doc_collapsed :: node where
  "doc_collapsed = page [egmur_header]"

definition doc_empty :: node where
  "doc_empty = page []"

text \<open>A page with both tab buttons, neither marked active.\<close>

definition doc_inactive_tabs :: node where
  "doc_inactive_tabs =
     page [el ''button'' [] [TextNode ''Shortest''], el ''button'' [(''role'', ''tab'')] [TextNode '' secure '']]"

text \<open>A page whose header shows a rating outside the range of security ratings.\<close>

definition doc_rating_9_9 :: node where
  "doc_rating_9_9 =
     page [el ''header'' [] [el ''h6'' [] [TextNode ''Egmur''], el ''span'' [] [TextNode ''9.9'']]]"

text \<open>A page whose header shows a distance before the rating.\<close>

definition doc_distance :: node where
  "doc_distance =
     page [el ''header'' []
             [el ''h6'' [] [TextNode ''Egmur''], el ''span'' [] [TextNode ''12.5 AU''],
              el ''span'' [] [TextNode ''0.7'']]]"

subsection \<open>Notions used by the properties\<close>

text \<open>The selectors a list of effects queries the document with, in order.\<close>

fun queries :: "event list \<Rightarrow> selector list" where
  "queries [] = []"
| "queries (Query sel # evs) = sel # queries evs"
| "queries (Log a # evs) = queries evs"
| "queries (LogError a # evs) = queries evs"

text \<open>The values of the variables \<^verbatim>\<open>securityRating\<close> and \<^verbatim>\<open>connectionType\<close> of
  \<^verbatim>\<open>extractSecurityAndConnection\<close> after its first, second and third strategy block.\<close>

definition fields_after1 :: "node \<Rightarrow> string \<Rightarrow> fields" where
  "fields_after1 doc systemName = snd (security_strategy1 doc systemName)"

definition fields_after2 :: "node \<Rightarrow> string \<Rightarrow> fields" where
  "fields_after2 doc systemName =
     (let st1 = fields_after1 doc systemName
      in if \<not> truthy (fst st1) \<and> \<not> truthy (snd st1) then snd (security_strategy2 doc st1) else st1)"

definition fields_after3 :: "node \<Rightarrow> string \<Rightarrow> fields" where
  "fields_after3 doc systemName =
     (let st2 = fields_after2 doc systemName
      in if \<not> truthy (fst st2) \<or> \<not> truthy (snd st2) then snd (security_strategy3 doc st2) else st2)"

text \<open>The strings the two regular expressions of the classifier match: \<^verbatim>\<open>-?\d\.\d\<close> and
  \<^verbatim>\<open>C[1-6]\<close>.\<close>

definition rating_pattern :: "string \<Rightarrow> bool" where
  "rating_pattern s =
     (length s = 3 \<and> digit_dot_digit s \<or>
      length s = 4 \<and> hd s = CHR ''-'' \<and> digit_dot_digit (tl s))"

definition connection_pattern :: "string \<Rightarrow> bool" where
  "connection_pattern c = (case c of [a, d] \<Rightarrow> a = CHR ''C'' \<and> d \<in> set ''123456'' | _ \<Rightarrow> False)"

definition fields_wf :: "fields \<Rightarrow> bool" where
  "fields_wf st =
     ((case fst st of None \<Rightarrow> True | Some s \<Rightarrow> rating_pattern s) \<and>
      (case snd st of None \<Rightarrow> True | Some c \<Rightarrow> connection_pattern c))"

text \<open>The value of a decimal numeric string (an optional minus sign, digits, and optionally a
  point and more digits) as a pair \<open>(m, k)\<close> that stands for \<open>m / 10 ^ k\<close>.\<close>

definition digit_value :: "char \<Rightarrow> nat" where
  "digit_value c = length (takeWhile (\<lambda>d. d \<noteq> c) ''0123456789'')"

definition digits_value :: "string \<Rightarrow> nat" where
  "digits_value ds = foldl (\<lambda>a c. 10 * a + digit_value c) 0 ds"

definition decimal_value :: "string \<Rightarrow> (int \<times> nat) option" where
  "decimal_value s =
     (let neg = (case s of [] \<Rightarrow> False | c # _ \<Rightarrow> c = CHR ''-'');
          u = (if neg then tl s else s);
          ip = takeWhile is_digit u;
          r = dropWhile is_digit u
      in if ip = [] then None
         else (case r of
                 [] \<Rightarrow> Some ((if neg then - 1 else 1) * int (digits_value ip), 0)
               | c # fp \<Rightarrow>
                   if c = CHR ''.'' \<and> fp \<noteq> [] \<and> list_all is_digit fp
                   then Some ((if neg then - 1 else 1) * int (digits_value (ip @ fp)), length fp)
                   else None))"

text \<open>The data model of the specification, in its words: a security rating is the sentinel
  \<^verbatim>\<open>Unknown\<close> or a decimal numeric string whose value lies in the interval from -1.0 to 1.0.\<close>

definition spec_securityRating :: "string \<Rightarrow> bool" where
  "spec_securityRating s =
     (s = ''Unknown'' \<or>
      (case decimal_value s of None \<Rightarrow> False | Some (m, k) \<Rightarrow> - (10 ^ k) \<le> m \<and> m \<le> 10 ^ k))"

text \<open>What each strategy of \<^verbatim>\<open>extractDestinations\<close> yields on a document.\<close>

definition strategyA :: "node \<Rightarrow> destination list" where
  "strategyA doc = snd (summaries_loop (querySelectorAll doc hubSummaries_selector))"

definition strategyB :: "node \<Rightarrow> destination list" where
  "strategyB doc = snd (summaries_loop (querySelectorAll doc accordions_selector))"

definition strategyC :: "node \<Rightarrow> destination list" where
  "strategyC doc = snd (panels_loop (querySelectorAll doc panels_selector))"

text \<open>The console line of a destination that was found.\<close>

definition found_line :: "event \<Rightarrow> bool" where
  "found_line e = (case e of Log [Str s] \<Rightarrow> starts_with s ''  Found: '' | _ \<Rightarrow> False)"

text \<open>What the scan of a container discovers, in the order of the scan and before any
  removal of duplicates: at an element whose trimmed text is a hub name, that name with the
  number found near the element.\<close>

definition found_here :: "place \<Rightarrow> string \<Rightarrow> string \<Rightarrow> destination list" where
  "found_here element text hub =
     (if text = hub
      then (case nearby_jumps element of
              None \<Rightarrow> []
            | Some j \<Rightarrow> if j \<noteq> [] then [\<lparr>name = hub, jumps = j\<rparr>] else [])
      else [])"

definition discoveries_at :: "place \<Rightarrow> destination list" where
  "discoveries_at element =
     concat (map (found_here element (trim (textContent (self element)))) commonHubs)"

definition discoveries :: "place \<Rightarrow> destination list" where
  "discoveries container =
     concat (map discoveries_at (element_querySelectorAll container [[Universal]]))"

text \<open>The first occurrence of every name, in the order of the list.\<close>

fun keep_first :: "destination list \<Rightarrow> destination list" where
  "keep_first [] = []"
| "keep_first (d # ds) = d # keep_first (filter (\<lambda>e. name e \<noteq> name d) ds)"

definition append_new :: "destination list \<Rightarrow> destination list \<Rightarrow> destination list" where
  "append_new acc ds = acc @ keep_first (filter (\<lambda>d. name d \<notin> name ` set acc) ds)"

text \<open>Pages for the Destination Extractor: one hub summary; two hub summaries with the same
  name; two visible panels that each hold Jita; an accordion; and a detached panel in which
  Jita occurs twice.\<close>

definition doc_one_hub :: node where
  "doc_one_hub = page [hub_summary ''Jita'' ''14'']"



definition doc_accordion :: node where
  "doc_accordion =
     page [el ''div'' [(''class'', ''MuiAccordion-root'')]
             [el ''p'' [] [TextNode ''Hek''], el ''p'' [] [TextNode ''16'']]]"

definition panel_two_jita :: place where
  "panel_two_jita =
     \<lparr>ancestors = [], before = [],
      self = el ''div'' [(''role'', ''tabpanel'')]
               [el ''div'' [] [el ''b'' [] [TextNode ''Jita''], el ''i'' [] [TextNode ''14'']],
                el ''div'' [] [el ''b'' [] [TextNode ''Jita''], el ''i'' [] [TextNode ''16'']],
                el ''div'' [] [el ''b'' [] [TextNode ''Hek''], el ''i'' [] [TextNode ''5'']]],
      after = []\<rparr>"

text \<open>The in-flight guard is set exactly while a call is outstanding, and at most one is.\<close>

definition guard_invariant :: "popup \<Rightarrow> bool" where
  "guard_invariant s =
     ((isSendingToDiscord s \<longleftrightarrow> outstanding s \<noteq> []) \<and> length (outstanding s) \<le> 1)"

text \<open>A popup that shows the Egmur line and has a webhook stored.\<close>

definition popup_egmur :: popup where
  "popup_egmur =
     popup_opened ''https://discord.example/api/webhooks/1''
       ''Egmur, 0.7, C4,'' ''Jita 14, Hek 16''"

section \<open>Properties\<close>

subsection \<open>The Name Locator and the short circuit\<close>

lemma first_name_like_nonempty: "first_name_like es = Some t \<Longrightarrow> t \<noteq> []"
  by (induction es) (auto simp: Let_def name_like_def split: if_splits)

lemma first_h6_name_nonempty: "first_h6_name es = Some t \<Longrightarrow> t \<noteq> []"
  by (induction es) (auto simp: Let_def name_like_def split: if_splits)

lemma try_header_selectors_nonempty:
  "snd (try_header_selectors doc sels) = Some t \<Longrightarrow> t \<noteq> []"
  by (induction sels) (auto split: option.splits prod.splits dest: first_name_like_nonempty)

lemma try_header_selectors_none:
  "snd (try_header_selectors doc sels) = None \<Longrightarrow> fst (try_header_selectors doc sels) = map Query sels"
  by (induction sels) (auto split: option.splits prod.splits)

lemma extractSystemName_nonempty:
  assumes "snd (extractSystemName doc) = Some t" shows "t \<noteq> []"
proof (cases "try_header_selectors doc headerSelectors")
  case (Pair evs r)
  show ?thesis
  proof (cases r)
    case None
    with Pair assms show ?thesis
      by (auto simp: extractSystemName_def split: option.splits dest: first_h6_name_nonempty)
  next
    case (Some a)
    with Pair assms try_header_selectors_nonempty [of doc headerSelectors t] show ?thesis
      by (auto simp: extractSystemName_def)
  qed
qed

lemma extractSystemName_none:
  assumes "snd (extractSystemName doc) = None"
  shows "fst (extractSystemName doc) =
           Log [Str ''Extracting system name...''] # map Query headerSelectors
             @ [Query [[Tag ''h6'']], Log [Str ''Could not find system name'']]"
proof (cases "try_header_selectors doc headerSelectors")
  case (Pair evs r)
  show ?thesis
  proof (cases r)
    case None
    with Pair assms try_header_selectors_none [of doc headerSelectors] show ?thesis
      by (auto simp: extractSystemName_def split: option.splits)
  next
    case (Some a)
    with Pair assms show ?thesis by (auto simp: extractSystemName_def)
  qed
qed

text \<open>
  C3, as the code has it. When the Name Locator resolves no name, \<^verbatim>\<open>getSystemData\<close>
  returns success false, the error \<^verbatim>\<open>No system selected.\<close>, an empty body and the header
  \<^verbatim>\<open>No system selected\<close>, which is the error text without its final full stop. Its effects
  are those of the Name Locator between two console lines of its own: the opening lines and
  the document queries of the Classifier Extractor, the Mode Detector and the Destination
  Extractor do not occur, so none of the three is invoked.
\<close>

theorem getSystemData_no_name:
  assumes "snd (extractSystemName doc) = None"
  shows "snd (getSystemData doc) =
           \<lparr>success = False, error = Some ''No system selected.'',
            header = ''No system selected'', destinations = []\<rparr> \<and>
         fst (getSystemData doc) =
           Log [Str ''=== Starting System Data Extraction ===''] # fst (extractSystemName doc)
             @ [Log [Str ''No system name found - no system selected'']] \<and>
         Log [Str ''Extracting security rating and connection type...''] \<notin> set (fst (getSystemData doc)) \<and>
         Log [Str ''Detecting active tab...''] \<notin> set (fst (getSystemData doc)) \<and>
         (\<forall>tab. Log [Str (''Extracting destinations from '' @ tab @ '' tab...'')]
                 \<notin> set (fst (getSystemData doc))) \<and>
         Query mapNodes_selector \<notin> set (fst (getSystemData doc)) \<and>
         Query tabButtons_selector \<notin> set (fst (getSystemData doc)) \<and>
         Query hubSummaries_selector \<notin> set (fst (getSystemData doc))"
proof -
  obtain evs where e: "extractSystemName doc = (evs, None)"
    using assms by (cases "extractSystemName doc") auto
  have evs: "evs = Log [Str ''Extracting system name...''] # map Query headerSelectors
             @ [Query [[Tag ''h6'']], Log [Str ''Could not find system name'']]"
    using extractSystemName_none [OF assms] e by simp
  have r: "getSystemData doc =
      (Log [Str ''=== Starting System Data Extraction ===''] # evs
             @ [Log [Str ''No system name found - no system selected'']],
       \<lparr>success = False, error = Some ''No system selected.'',
            header = ''No system selected'', destinations = []\<rparr>)"
    by (simp add: getSystemData_def e truthy_def)
  show ?thesis
    unfolding r e
    by (simp add: evs headerSelectors_def mapNodes_selector_def tabButtons_selector_def
        hubSummaries_selector_def)
qed

theorem getSystemData_no_name_witness:
  "snd (extractSystemName doc_empty) = None \<and>
   snd (getSystemData doc_empty) =
     \<lparr>success = False, error = Some ''No system selected.'',
      header = ''No system selected'', destinations = []\<rparr> \<and>
   Query mapNodes_selector \<notin> set (fst (getSystemData doc_empty))"
proof -
  have n: "snd (extractSystemName doc_empty) = None" by code_simp
  from getSystemData_no_name [OF n] n show ?thesis by blast
qed

text \<open>C3 as stated fails: on a page with nothing selected the header is not a copy of the
  error text.\<close>

theorem header_copy_counterexample:
  "snd (extractSystemName doc_empty) = None \<and>
   error (snd (getSystemData doc_empty)) = Some ''No system selected.'' \<and>
   header (snd (getSystemData doc_empty)) = ''No system selected'' \<and>
   Some (header (snd (getSystemData doc_empty))) \<noteq> error (snd (getSystemData doc_empty))"
  by code_simp

subsection \<open>The Mode Detector\<close>

lemma first_active_tab_range:
  "first_active_tab bs = Some t \<Longrightarrow> t = ''SHORTEST'' \<or> t = ''SECURE''"
  by (induction bs) (auto simp: Let_def split: if_splits)

lemma first_active_tab_none:
  "\<not> list_ex (\<lambda>b. (toUpperCase (trim (textContent (self b))) = ''SHORTEST'' \<or>
                     toUpperCase (trim (textContent (self b))) = ''SECURE'') \<and> isActive (self b)) bs
   \<Longrightarrow> first_active_tab bs = None"
  by (induction bs) (auto simp: Let_def)

text \<open>
  C8. \<^verbatim>\<open>detectActiveTab\<close> is a total function of the document whose value is one of the
  two labels \<^verbatim>\<open>SHORTEST\<close> and \<^verbatim>\<open>SECURE\<close>; when no button or tab that carries one of the labels
  is marked active, the value is \<^verbatim>\<open>SHORTEST\<close>.
\<close>

theorem detectActiveTab_total:
  "(snd (detectActiveTab doc) = ''SHORTEST'' \<or> snd (detectActiveTab doc) = ''SECURE'') \<and>
   (\<not> list_ex (\<lambda>b. (toUpperCase (trim (textContent (self b))) = ''SHORTEST'' \<or>
                      toUpperCase (trim (textContent (self b))) = ''SECURE'') \<and> isActive (self b))
         (querySelectorAll doc tabButtons_selector)
    \<longrightarrow> snd (detectActiveTab doc) = ''SHORTEST'')"
proof (intro conjI impI)
  show "snd (detectActiveTab doc) = ''SHORTEST'' \<or> snd (detectActiveTab doc) = ''SECURE''"
    using first_active_tab_range [of "querySelectorAll doc tabButtons_selector"]
    by (auto simp: detectActiveTab_def split: option.splits)
next
  assume "\<not> list_ex (\<lambda>b. (toUpperCase (trim (textContent (self b))) = ''SHORTEST'' \<or>
                      toUpperCase (trim (textContent (self b))) = ''SECURE'') \<and> isActive (self b))
         (querySelectorAll doc tabButtons_selector)"
  then show "snd (detectActiveTab doc) = ''SHORTEST''"
    by (simp add: detectActiveTab_def first_active_tab_none)
qed

theorem detectActiveTab_total_witness:
  "length (querySelectorAll doc_inactive_tabs tabButtons_selector) = 2 \<and>
   \<not> list_ex (\<lambda>b. (toUpperCase (trim (textContent (self b))) = ''SHORTEST'' \<or>
                     toUpperCase (trim (textContent (self b))) = ''SECURE'') \<and> isActive (self b))
         (querySelectorAll doc_inactive_tabs tabButtons_selector) \<and>
   snd (detectActiveTab doc_inactive_tabs) = ''SHORTEST''"
proof -
  have n: "length (querySelectorAll doc_inactive_tabs tabButtons_selector) = 2"
    by code_simp
  have h: "\<not> list_ex (\<lambda>b. (toUpperCase (trim (textContent (self b))) = ''SHORTEST'' \<or>
                     toUpperCase (trim (textContent (self b))) = ''SECURE'') \<and> isActive (self b))
         (querySelectorAll doc_inactive_tabs tabButtons_selector)"
    by code_simp
  from detectActiveTab_total [of doc_inactive_tabs] n h show ?thesis by blast
qed

subsection \<open>The Classifier Extractor\<close>

lemma digit_dot_digit_take: "digit_dot_digit cs \<Longrightarrow> digit_dot_digit (take 3 cs) \<and> length (take 3 cs) = 3"
  by (auto simp: digit_dot_digit_def split: list.splits)

lemma match_security_pattern: "match_security t = Some s \<Longrightarrow> rating_pattern s"
proof (induction t)
  case Nil
  then show ?case by simp
next
  case (Cons c cs)
  show ?case
  proof (cases "c = CHR ''-'' \<and> digit_dot_digit cs")
    case True
    with Cons.prems have "s = c # take 3 cs" by simp
    with True digit_dot_digit_take [of cs] show ?thesis by (simp add: rating_pattern_def)
  next
    case False
    show ?thesis
    proof (cases "digit_dot_digit (c # cs)")
      case True
      with False Cons.prems have "s = take 3 (c # cs)" by auto
      with digit_dot_digit_take [OF True] show ?thesis by (simp add: rating_pattern_def)
    next
      case f: False
      with False Cons.prems have "match_security cs = Some s" by auto
      then show ?thesis by (rule Cons.IH)
    qed
  qed
qed

lemma match_connection_pattern: "match_connection t = Some c \<Longrightarrow> connection_pattern c"
  by (induction t) (auto simp: connection_pattern_def split: list.splits if_splits)

lemma rating_pattern_nonempty: "rating_pattern s \<Longrightarrow> s \<noteq> []"
  by (auto simp: rating_pattern_def)

lemma connection_pattern_nonempty: "connection_pattern c \<Longrightarrow> c \<noteq> []"
  by (auto simp: connection_pattern_def)

lemma strategy1_wf: "fields_wf (snd (security_strategy1 doc n))"
  by (auto simp: security_strategy1_def fields_wf_def split: option.splits
      dest: match_security_pattern match_connection_pattern)

lemma systemType_loop_wf: "fields_wf st \<Longrightarrow> fields_wf (snd (systemType_loop es st))"
proof (induction es arbitrary: st)
  case Nil
  then show ?case by simp
next
  case (Cons element elements)
  obtain sec conn where st: "st = (sec, conn)" by (cases st)
  show ?case
  proof (cases "match_connection (trim (textContent (self element)))")
    case None
    note nc = None
    show ?thesis
    proof (cases "match_security (trim (textContent (self element)))")
      case None
      with nc Cons show ?thesis by (simp add: st Let_def)
    next
      case (Some s)
      with Cons.prems match_security_pattern [OF Some] have "fields_wf (Some s, conn)"
        by (simp add: fields_wf_def st)
      from Cons.IH [OF this] nc Some show ?thesis
        by (simp add: st Let_def case_prod_beta)
    qed
  next
    case (Some c)
    with Cons.prems match_connection_pattern [OF Some] have "fields_wf (sec, Some c)"
      by (simp add: fields_wf_def st)
    from Cons.IH [OF this] Some show ?thesis
      by (simp add: st Let_def case_prod_beta)
  qed
qed

lemma strategy2_wf: "fields_wf st \<Longrightarrow> fields_wf (snd (security_strategy2 doc st))"
  using systemType_loop_wf [of st "querySelectorAll doc systemType_selector"]
  by (simp add: security_strategy2_def case_prod_beta)

lemma strategy3_wf: "fields_wf st \<Longrightarrow> fields_wf (snd (security_strategy3 doc st))"
  by (auto simp: security_strategy3_def fields_wf_def Let_def split: option.splits prod.splits if_splits
      dest: match_security_pattern match_connection_pattern)

lemma fields_after1_wf: "fields_wf (fields_after1 doc n)"
  by (simp add: fields_after1_def strategy1_wf)

lemma fields_after2_wf: "fields_wf (fields_after2 doc n)"
  by (simp add: fields_after2_def Let_def strategy2_wf fields_after1_wf)

lemma fields_after3_wf: "fields_wf (fields_after3 doc n)"
  by (simp add: fields_after3_def Let_def strategy3_wf fields_after2_wf)

lemma fields_wf_truthy:
  "fields_wf st \<Longrightarrow> truthy (fst st) = (fst st \<noteq> None) \<and> truthy (snd st) = (snd st \<noteq> None)"
  by (auto simp: fields_wf_def truthy_def split: option.splits
      dest: rating_pattern_nonempty connection_pattern_nonempty)

lemma extractSecurityAndConnection_result:
  "snd (extractSecurityAndConnection doc n) =
     \<lparr>securityRating = (case fst (fields_after3 doc n) of None \<Rightarrow> ''Unknown'' | Some s \<Rightarrow> s),
      connectionType = snd (fields_after3 doc n)\<rparr>"
proof -
  have wf: "fields_wf (fields_after3 doc n)" by (rule fields_after3_wf)
  have d: "snd (security_default (fst (fields_after3 doc n))) =
      (case fst (fields_after3 doc n) of None \<Rightarrow> ''Unknown'' | Some s \<Rightarrow> s)"
    using wf by (auto simp: security_default_def fields_wf_def split: option.splits
        dest: rating_pattern_nonempty)
  have "snd (extractSecurityAndConnection doc n) =
     \<lparr>securityRating = snd (security_default (fst (fields_after3 doc n))),
      connectionType = snd (fields_after3 doc n)\<rparr>"
    by (simp add: extractSecurityAndConnection_def fields_after3_def fields_after2_def
        fields_after1_def Let_def case_prod_beta)
  with d show ?thesis by simp
qed

lemma queries_append [simp]: "queries (xs @ ys) = queries xs @ queries ys"
  by (induction xs rule: queries.induct) auto

lemma Query_in_set: "Query sel \<in> set evs \<longleftrightarrow> sel \<in> set (queries evs)"
  by (induction evs rule: queries.induct) auto

lemma queries_strategy1: "queries (fst (security_strategy1 doc n)) = [mapNodes_selector]"
  by (auto simp: security_strategy1_def split: option.splits)

lemma queries_systemType_loop: "queries (fst (systemType_loop es st)) = []"
proof (induction es arbitrary: st)
  case Nil
  then show ?case by simp
next
  case (Cons e es)
  obtain sec conn where st: "st = (sec, conn)" by (cases st)
  show ?case
    by (simp add: st Let_def case_prod_beta Cons.IH split: option.splits)
qed

lemma queries_strategy2: "queries (fst (security_strategy2 doc st)) = [systemType_selector]"
  by (simp add: security_strategy2_def case_prod_beta queries_systemType_loop)

lemma queries_strategy3: "queries (fst (security_strategy3 doc st)) = [headerArea_selector]"
  by (auto simp: security_strategy3_def Let_def case_prod_beta split: option.splits)

lemma queries_default: "queries (fst (security_default s)) = []"
  by (simp add: security_default_def split: option.splits)

lemma queries_connection_log: "queries (connection_log c) = []"
  by (simp add: connection_log_def split: option.splits)

lemma queries_extractSecurityAndConnection:
  "queries (fst (extractSecurityAndConnection doc n)) =
     mapNodes_selector
       # (if fields_after1 doc n = (None, None) then [systemType_selector] else [])
       @ (if fst (fields_after2 doc n) = None \<or> snd (fields_after2 doc n) = None
          then [headerArea_selector] else [])"
proof -
  have t1: "truthy (fst (fields_after1 doc n)) = (fst (fields_after1 doc n) \<noteq> None)"
     "truthy (snd (fields_after1 doc n)) = (snd (fields_after1 doc n) \<noteq> None)"
    using fields_wf_truthy [OF fields_after1_wf [of doc n]] by auto
  have t2: "truthy (fst (fields_after2 doc n)) = (fst (fields_after2 doc n) \<noteq> None)"
     "truthy (snd (fields_after2 doc n)) = (snd (fields_after2 doc n) \<noteq> None)"
    using fields_wf_truthy [OF fields_after2_wf [of doc n]] by auto
  have e: "fields_after1 doc n = (None, None) \<longleftrightarrow>
      fst (fields_after1 doc n) = None \<and> snd (fields_after1 doc n) = None"
    by (cases "fields_after1 doc n") auto
  have "queries (fst (extractSecurityAndConnection doc n)) =
     mapNodes_selector
       # (if \<not> truthy (fst (fields_after1 doc n)) \<and> \<not> truthy (snd (fields_after1 doc n))
          then [systemType_selector] else [])
       @ (if \<not> truthy (fst (fields_after2 doc n)) \<or> \<not> truthy (snd (fields_after2 doc n))
          then [headerArea_selector] else [])"
    by (simp add: extractSecurityAndConnection_def fields_after2_def
        fields_after1_def Let_def case_prod_beta queries_strategy1 queries_strategy2
        queries_strategy3 queries_default queries_connection_log)
  then show ?thesis by (simp add: t1 t2 e)
qed

text \<open>
  C4. In \<^verbatim>\<open>extractSecurityAndConnection\<close> the second strategy queries the document only if
  the first did not fill both fields, and the third only if the fields are not both filled
  after the second block; exactly, the second runs when the first filled neither field and
  the third when at least one field is still unset. The third strategy leaves a field that
  is set as it is. At the end an unset \<^verbatim>\<open>securityRating\<close> becomes \<^verbatim>\<open>Unknown\<close>, and
  \<^verbatim>\<open>connectionType\<close> is returned as the strategies left it, absent when none of them set it.
\<close>

theorem classifier_strategy_order:
  "(Query systemType_selector \<in> set (fst (extractSecurityAndConnection doc n))
      \<longrightarrow> \<not> (truthy (fst (fields_after1 doc n)) \<and> truthy (snd (fields_after1 doc n)))) \<and>
   (Query headerArea_selector \<in> set (fst (extractSecurityAndConnection doc n))
      \<longrightarrow> \<not> (truthy (fst (fields_after2 doc n)) \<and> truthy (snd (fields_after2 doc n)))) \<and>
   (Query systemType_selector \<in> set (fst (extractSecurityAndConnection doc n))
      \<longleftrightarrow> fields_after1 doc n = (None, None)) \<and>
   (Query headerArea_selector \<in> set (fst (extractSecurityAndConnection doc n))
      \<longleftrightarrow> fst (fields_after2 doc n) = None \<or> snd (fields_after2 doc n) = None) \<and>
   (truthy (fst st) \<longrightarrow> fst (snd (security_strategy3 doc st)) = fst st) \<and>
   (truthy (snd st) \<longrightarrow> snd (snd (security_strategy3 doc st)) = snd st) \<and>
   securityRating (snd (extractSecurityAndConnection doc n)) =
     (case fst (fields_after3 doc n) of None \<Rightarrow> ''Unknown'' | Some s \<Rightarrow> s) \<and>
   connectionType (snd (extractSecurityAndConnection doc n)) = snd (fields_after3 doc n)"
proof -
  let ?T = "fst (extractSecurityAndConnection doc n)"
  have sel: "systemType_selector \<noteq> mapNodes_selector" "headerArea_selector \<noteq> mapNodes_selector"
    "systemType_selector \<noteq> headerArea_selector"
    by (simp_all add: systemType_selector_def mapNodes_selector_def headerArea_selector_def)
  have q2: "Query systemType_selector \<in> set ?T \<longleftrightarrow> fields_after1 doc n = (None, None)"
    using sel by (simp add: Query_in_set queries_extractSecurityAndConnection)
  have q3: "Query headerArea_selector \<in> set ?T \<longleftrightarrow>
      fst (fields_after2 doc n) = None \<or> snd (fields_after2 doc n) = None"
    using sel by (auto simp: Query_in_set queries_extractSecurityAndConnection)
  have a: "Query systemType_selector \<in> set ?T
      \<longrightarrow> \<not> (truthy (fst (fields_after1 doc n)) \<and> truthy (snd (fields_after1 doc n)))"
    unfolding q2 by (auto simp: truthy_def)
  have b: "Query headerArea_selector \<in> set ?T
      \<longrightarrow> \<not> (truthy (fst (fields_after2 doc n)) \<and> truthy (snd (fields_after2 doc n)))"
    unfolding q3 by (auto simp: truthy_def)
  have c: "truthy (fst st) \<longrightarrow> fst (snd (security_strategy3 doc st)) = fst st"
    by (auto simp: security_strategy3_def Let_def case_prod_beta split: option.splits)
  have d: "truthy (snd st) \<longrightarrow> snd (snd (security_strategy3 doc st)) = snd st"
    by (auto simp: security_strategy3_def Let_def case_prod_beta split: option.splits)
  show ?thesis
    using a b q2 q3 c d by (simp add: extractSecurityAndConnection_result)
qed

theorem classifier_strategy_order_witness:
  "Query systemType_selector \<in> set (fst (extractSecurityAndConnection doc_collapsed ''Egmur'')) \<and>
   Query headerArea_selector \<in> set (fst (extractSecurityAndConnection doc_collapsed ''Egmur'')) \<and>
   fields_after1 doc_collapsed ''Egmur'' = (None, None) \<and>
   fields_after2 doc_collapsed ''Egmur'' = (None, None) \<and>
   fields_after3 doc_collapsed ''Egmur'' = (Some ''0.7'', Some ''C4'') \<and>
   truthy (Some ''-0.3'') \<and> truthy (Some ''C1'') \<and>
   snd (security_strategy3 doc_collapsed (Some ''-0.3'', Some ''C1'')) = (Some ''-0.3'', Some ''C1'') \<and>
   snd (extractSecurityAndConnection doc_collapsed ''Egmur'') =
     \<lparr>securityRating = ''0.7'', connectionType = Some ''C4''\<rparr>"
proof -
  have q: "Query systemType_selector \<in> set (fst (extractSecurityAndConnection doc_collapsed ''Egmur''))"
    "Query headerArea_selector \<in> set (fst (extractSecurityAndConnection doc_collapsed ''Egmur''))"
    by code_simp+
  have f: "fields_after3 doc_collapsed ''Egmur'' = (Some ''0.7'', Some ''C4'')" by code_simp
  have f2: "fields_after2 doc_collapsed ''Egmur'' = (None, None)" by code_simp
  have t: "truthy (fst (Some ''-0.3'', Some ''C1''))" "truthy (snd (Some ''-0.3'', Some ''C1''))"
    by (simp_all add: truthy_def)
  from classifier_strategy_order [of doc_collapsed "''Egmur''" "(Some ''-0.3'', Some ''C1'')"] q f f2 t
  show ?thesis
    by (simp add: truthy_def prod_eq_iff)
qed

lemma digit_value_le: "is_digit c \<Longrightarrow> digit_value c \<le> 9"
  by (auto simp: is_digit_def digit_value_def)

lemma digit_dot_digit_3:
  "length s = 3 \<Longrightarrow> digit_dot_digit s \<Longrightarrow> \<exists>a d. s = [a, CHR ''.'', d] \<and> is_digit a \<and> is_digit d"
  by (auto simp: digit_dot_digit_def split: list.splits)

lemma decimal_value_digit_dot_digit:
  assumes "is_digit a" "is_digit d"
  shows "decimal_value [a, CHR ''.'', d] = Some (int (10 * digit_value a + digit_value d), 1)"
    and "decimal_value [CHR ''-'', a, CHR ''.'', d] = Some (- int (10 * digit_value a + digit_value d), 1)"
proof -
  have nd: "\<not> is_digit CHR ''.''" "\<not> is_digit CHR ''-''" by (simp_all add: is_digit_def)
  with assms have am: "a \<noteq> CHR ''-''" by auto
  show "decimal_value [a, CHR ''.'', d] = Some (int (10 * digit_value a + digit_value d), 1)"
    using assms nd am by (simp add: decimal_value_def digits_value_def)
  show "decimal_value [CHR ''-'', a, CHR ''.'', d] = Some (- int (10 * digit_value a + digit_value d), 1)"
    using assms nd by (simp add: decimal_value_def digits_value_def)
qed

lemma rating_pattern_value:
  assumes "rating_pattern s"
  shows "\<exists>m. decimal_value s = Some (m, 1) \<and> - 99 \<le> m \<and> m \<le> 99"
proof -
  from assms consider
    (pos) "length s = 3" "digit_dot_digit s"
    | (neg) "length s = 4" "hd s = CHR ''-''" "digit_dot_digit (tl s)"
    by (auto simp: rating_pattern_def)
  then show ?thesis
  proof cases
    case pos
    then obtain a d where s: "s = [a, CHR ''.'', d]" "is_digit a" "is_digit d"
      using digit_dot_digit_3 by blast
    with decimal_value_digit_dot_digit(1) [of a d] digit_value_le [of a] digit_value_le [of d]
    show ?thesis by auto
  next
    case neg
    then have "length (tl s) = 3" by simp
    with neg obtain a d where t: "tl s = [a, CHR ''.'', d]" "is_digit a" "is_digit d"
      using digit_dot_digit_3 by blast
    with neg have s: "s = [CHR ''-'', a, CHR ''.'', d]" by (cases s) auto
    with t decimal_value_digit_dot_digit(2) [of a d] digit_value_le [of a] digit_value_le [of d]
    show ?thesis by auto
  qed
qed

text \<open>
  What the regular expression of the three strategies does guarantee: the
  \<^verbatim>\<open>securityRating\<close> of the classification is \<^verbatim>\<open>Unknown\<close> or a match of
  \<^verbatim>\<open>-?\d\.\d\<close>, one digit, a point and one digit, with or without a minus sign.
\<close>

lemma securityRating_shape:
  "securityRating (snd (extractSecurityAndConnection doc n)) = ''Unknown'' \<or>
   (rating_pattern (securityRating (snd (extractSecurityAndConnection doc n))) \<and>
    (\<exists>m. decimal_value (securityRating (snd (extractSecurityAndConnection doc n))) = Some (m, 1) \<and>
         - 99 \<le> m \<and> m \<le> 99))"
proof (cases "fst (fields_after3 doc n)")
  case None
  then show ?thesis by (simp add: extractSecurityAndConnection_result)
next
  case (Some s)
  with fields_after3_wf [of doc n] have "rating_pattern s" by (simp add: fields_wf_def)
  with Some rating_pattern_value [of s] show ?thesis
    by (simp add: extractSecurityAndConnection_result)
qed

lemma securityRating_shape_example:
  "securityRating (snd (extractSecurityAndConnection doc_collapsed ''Egmur'')) = ''0.7'' \<and>
   rating_pattern ''0.7'' \<and>
   (\<exists>m. decimal_value ''0.7'' = Some (m, 1) \<and> - 99 \<le> m \<and> m \<le> 99) \<and>
   decimal_value ''0.7'' = Some (7, 1)"
proof -
  have c: "securityRating (snd (extractSecurityAndConnection doc_collapsed ''Egmur'')) = ''0.7''"
    by code_simp
  have v: "decimal_value ''0.7'' = Some (7, 1)" by code_simp
  from securityRating_shape [of doc_collapsed "''Egmur''"]
  have "rating_pattern ''0.7'' \<and>
      (\<exists>m. decimal_value ''0.7'' = Some (m, 1) \<and> - 99 \<le> m \<and> m \<le> 99)"
    unfolding c by simp
  with c v show ?thesis by blast
qed

subsection \<open>The Formatter\<close>

lemma connectionType_nonempty:
  "connectionType (snd (extractSecurityAndConnection doc n)) \<noteq> Some []"
  using fields_after3_wf [of doc n]
  by (auto simp: extractSecurityAndConnection_result fields_wf_def
      dest: connection_pattern_nonempty split: option.splits)

lemma getSystemData_named:
  assumes "snd (extractSystemName doc) = Some n"
  shows "snd (getSystemData doc) =
     (let cls = snd (extractSecurityAndConnection doc n);
          dests = snd (extractDestinations doc (snd (detectActiveTab doc)))
      in if dests = []
         then \<lparr>success = False,
               error = Some ''Could not extract destination data. Please ensure the tab is expanded.'',
               header = (case connectionType cls of
                           None \<Rightarrow> n @ '', '' @ securityRating cls
                         | Some c \<Rightarrow> n @ '', '' @ securityRating cls @ '', '' @ c),
               destinations = []\<rparr>
         else \<lparr>success = True, error = None,
               header = (case connectionType cls of
                           None \<Rightarrow> n @ '', '' @ securityRating cls @ '',''
                         | Some c \<Rightarrow> n @ '', '' @ securityRating cls @ '', '' @ c @ '',''),
               destinations = join '', '' (map (\<lambda>d. name d @ '' '' @ jumps d) dests)\<rparr>)"
proof -
  obtain evs where e: "extractSystemName doc = (evs, Some n)"
    using assms by (cases "extractSystemName doc") auto
  have n: "n \<noteq> []" using assms by (rule extractSystemName_nonempty)
  have t: "truthy (Some n)" using n by (simp add: truthy_def)
  have c: "truthy (connectionType (snd (extractSecurityAndConnection doc n))) =
      (connectionType (snd (extractSecurityAndConnection doc n)) \<noteq> None)"
    using connectionType_nonempty [of doc n] by (auto simp: truthy_def split: option.splits)
  show ?thesis
    by (simp add: getSystemData_def e t c Let_def case_prod_beta split: option.splits)
qed

text \<open>
  C1, as the code has it. When the Name Locator resolves a name and the Destination
  Extractor returns no destination, \<^verbatim>\<open>getSystemData\<close> returns success false, the error
  \<^verbatim>\<open>Could not extract destination data. Please ensure the tab is expanded.\<close>, an empty body
  and the header \<^verbatim>\<open>name, rating, tag\<close> when a connection tag was detected, else
  \<^verbatim>\<open>name, rating\<close>: in both forms without the trailing comma of the header of a success.
\<close>

theorem getSystemData_no_destinations:
  assumes "snd (extractSystemName doc) = Some n"
    and "snd (extractDestinations doc (snd (detectActiveTab doc))) = []"
  shows "snd (getSystemData doc) =
     \<lparr>success = False,
      error = Some ''Could not extract destination data. Please ensure the tab is expanded.'',
      header = (case connectionType (snd (extractSecurityAndConnection doc n)) of
                  None \<Rightarrow> n @ '', '' @ securityRating (snd (extractSecurityAndConnection doc n))
                | Some c \<Rightarrow> n @ '', '' @ securityRating (snd (extractSecurityAndConnection doc n))
                             @ '', '' @ c),
      destinations = []\<rparr>"
  using assms(2) by (simp add: getSystemData_named [OF assms(1)] Let_def)

theorem getSystemData_no_destinations_witness:
  "snd (extractSystemName doc_collapsed) = Some ''Egmur'' \<and>
   snd (extractDestinations doc_collapsed (snd (detectActiveTab doc_collapsed))) = [] \<and>
   snd (getSystemData doc_collapsed) =
     \<lparr>success = False,
      error = Some ''Could not extract destination data. Please ensure the tab is expanded.'',
      header = ''Egmur, 0.7, C4'', destinations = []\<rparr>"
proof -
  have n: "snd (extractSystemName doc_collapsed) = Some ''Egmur''" by code_simp
  have d: "snd (extractDestinations doc_collapsed (snd (detectActiveTab doc_collapsed))) = []"
    by code_simp
  have c: "snd (extractSecurityAndConnection doc_collapsed ''Egmur'') =
      \<lparr>securityRating = ''0.7'', connectionType = Some ''C4''\<rparr>" by code_simp
  from getSystemData_no_destinations [OF n d] n d show ?thesis by (simp add: c)
qed

text \<open>C1 as stated fails: with the route tab collapsed the header is \<^verbatim>\<open>Egmur, 0.7, C4\<close>,
  without the trailing comma.\<close>

theorem failure_header_counterexample:
  "snd (extractSystemName doc_collapsed) = Some ''Egmur'' \<and>
   snd (extractDestinations doc_collapsed (snd (detectActiveTab doc_collapsed))) = [] \<and>
   connectionType (snd (extractSecurityAndConnection doc_collapsed ''Egmur'')) = Some ''C4'' \<and>
   securityRating (snd (extractSecurityAndConnection doc_collapsed ''Egmur'')) = ''0.7'' \<and>
   header (snd (getSystemData doc_collapsed)) \<noteq> ''Egmur, 0.7, C4,''"
  by code_simp

lemma join_last:
  "xs \<noteq> [] \<Longrightarrow> \<exists>pre. join sep xs = pre @ last xs"
  by (induction sep xs rule: join.induct) auto

lemma join_nonempty: "xs \<noteq> [] \<Longrightarrow> \<forall>x\<in>set xs. x \<noteq> [] \<Longrightarrow> join sep xs \<noteq> []"
  by (induction sep xs rule: join.induct) auto

text \<open>
  C5. When a name is resolved and the Destination Extractor returns at least one
  destination, \<^verbatim>\<open>getSystemData\<close> returns success true, the header \<^verbatim>\<open>name, rating, tag,\<close>
  (without the tag segment when no tag was detected) and as body the pairs
  \<^verbatim>\<open>name jumps\<close> joined by a comma and a space; the body ends with the last pair, and
  the text the popup puts together is the header, a space and the body. On the page of the
  example the header is \<^verbatim>\<open>Egmur, 0.7, C4,\<close> and the body is
  \<^verbatim>\<open>Jita 14, Hek 16, Amarr 5, Rens 16, Dodixie 10\<close>.
\<close>

theorem getSystemData_success_format:
  assumes "snd (extractSystemName doc) = Some n"
    and "snd (extractDestinations doc (snd (detectActiveTab doc))) = ds"
    and "ds \<noteq> []"
  shows "snd (getSystemData doc) =
     \<lparr>success = True, error = None,
      header = (case connectionType (snd (extractSecurityAndConnection doc n)) of
                  None \<Rightarrow> n @ '', '' @ securityRating (snd (extractSecurityAndConnection doc n)) @ '',''
                | Some c \<Rightarrow> n @ '', '' @ securityRating (snd (extractSecurityAndConnection doc n))
                             @ '', '' @ c @ '',''),
      destinations = join '', '' (map (\<lambda>d. name d @ '' '' @ jumps d) ds)\<rparr> \<and>
    (\<exists>pre. destinations (snd (getSystemData doc)) = pre @ name (last ds) @ '' '' @ jumps (last ds)) \<and>
    fullText (header (snd (getSystemData doc))) (destinations (snd (getSystemData doc))) =
      header (snd (getSystemData doc)) @ '' '' @ destinations (snd (getSystemData doc))"
proof -
  let ?pairs = "map (\<lambda>d. name d @ '' '' @ jumps d) ds"
  have r: "snd (getSystemData doc) =
     \<lparr>success = True, error = None,
      header = (case connectionType (snd (extractSecurityAndConnection doc n)) of
                  None \<Rightarrow> n @ '', '' @ securityRating (snd (extractSecurityAndConnection doc n)) @ '',''
                | Some c \<Rightarrow> n @ '', '' @ securityRating (snd (extractSecurityAndConnection doc n))
                             @ '', '' @ c @ '',''),
      destinations = join '', '' ?pairs\<rparr>"
    using assms(2,3) by (simp add: getSystemData_named [OF assms(1)] Let_def)
  have ne: "?pairs \<noteq> []" using assms(3) by simp
  have l: "last ?pairs = name (last ds) @ '' '' @ jumps (last ds)"
    using assms(3) by (simp add: last_map)
  from join_last [OF ne, of "'', ''"] l
  have suffix: "\<exists>pre. join '', '' ?pairs = pre @ name (last ds) @ '' '' @ jumps (last ds)"
    by simp
  have "join '', '' ?pairs \<noteq> []"
    by (rule join_nonempty [OF ne]) auto
  then show ?thesis using r suffix by (simp add: fullText_def)
qed

theorem getSystemData_success_format_witness:
  "snd (extractSystemName doc_egmur) = Some ''Egmur'' \<and>
   snd (extractDestinations doc_egmur (snd (detectActiveTab doc_egmur))) =
     [\<lparr>name = ''Jita'', jumps = ''14''\<rparr>, \<lparr>name = ''Hek'', jumps = ''16''\<rparr>,
      \<lparr>name = ''Amarr'', jumps = ''5''\<rparr>, \<lparr>name = ''Rens'', jumps = ''16''\<rparr>,
      \<lparr>name = ''Dodixie'', jumps = ''10''\<rparr>] \<and>
   snd (extractSecurityAndConnection doc_egmur ''Egmur'') =
     \<lparr>securityRating = ''0.7'', connectionType = Some ''C4''\<rparr> \<and>
   header (snd (getSystemData doc_egmur)) = ''Egmur, 0.7, C4,'' \<and>
   destinations (snd (getSystemData doc_egmur)) = ''Jita 14, Hek 16, Amarr 5, Rens 16, Dodixie 10'' \<and>
   fullText (header (snd (getSystemData doc_egmur))) (destinations (snd (getSystemData doc_egmur))) =
     ''Egmur, 0.7, C4, Jita 14, Hek 16, Amarr 5, Rens 16, Dodixie 10''"
proof -
  have n: "snd (extractSystemName doc_egmur) = Some ''Egmur''" by code_simp
  have d: "snd (extractDestinations doc_egmur (snd (detectActiveTab doc_egmur))) =
     [\<lparr>name = ''Jita'', jumps = ''14''\<rparr>, \<lparr>name = ''Hek'', jumps = ''16''\<rparr>,
      \<lparr>name = ''Amarr'', jumps = ''5''\<rparr>, \<lparr>name = ''Rens'', jumps = ''16''\<rparr>,
      \<lparr>name = ''Dodixie'', jumps = ''10''\<rparr>]" by code_simp
  have c: "snd (extractSecurityAndConnection doc_egmur ''Egmur'') =
      \<lparr>securityRating = ''0.7'', connectionType = Some ''C4''\<rparr>" by code_simp
  from getSystemData_success_format [OF n d] n d c show ?thesis by (simp add: fullText_def)
qed

subsection \<open>The range of the security rating\<close>

text \<open>
  C7 fails on the code. The comments of \<^verbatim>\<open>extractSecurityAndConnection\<close> give the security
  ratings as the values from -1.0 to 1.0, and the data model has the rating as
  \<^verbatim>\<open>Unknown\<close> or a decimal numeric string in that range; the regular expression
  \<^verbatim>\<open>-?\d\.\d\<close> takes any digit before the point and the code checks no range. A header
  that shows 9.9 gives the rating 9.9, and a header that shows the distance 12.5 AU before
  the rating 0.7 gives the rating 2.5.
\<close>

theorem securityRating_out_of_range:
  "snd (extractSystemName doc_rating_9_9) = Some ''Egmur'' \<and>
   securityRating (snd (extractSecurityAndConnection doc_rating_9_9 ''Egmur'')) = ''9.9'' \<and>
   \<not> spec_securityRating ''9.9'' \<and>
   snd (extractSystemName doc_distance) = Some ''Egmur'' \<and>
   securityRating (snd (extractSecurityAndConnection doc_distance ''Egmur'')) = ''2.5'' \<and>
   \<not> spec_securityRating ''2.5''"
  by code_simp

theorem securityRating_out_of_range_witness:
  "header (snd (getSystemData doc_rating_9_9)) = ''Egmur, 9.9'' \<and>
   header (snd (getSystemData doc_distance)) = ''Egmur, 2.5''"
proof -
  from securityRating_out_of_range
  have n1: "snd (extractSystemName doc_rating_9_9) = Some ''Egmur''"
    and r1: "securityRating (snd (extractSecurityAndConnection doc_rating_9_9 ''Egmur'')) = ''9.9''"
    and n2: "snd (extractSystemName doc_distance) = Some ''Egmur''"
    and r2: "securityRating (snd (extractSecurityAndConnection doc_distance ''Egmur'')) = ''2.5''"
    by blast+
  have d1: "snd (extractDestinations doc_rating_9_9 (snd (detectActiveTab doc_rating_9_9))) = []"
    by code_simp
  have c1: "connectionType (snd (extractSecurityAndConnection doc_rating_9_9 ''Egmur'')) = None"
    by code_simp
  have d2: "snd (extractDestinations doc_distance (snd (detectActiveTab doc_distance))) = []"
    by code_simp
  have c2: "connectionType (snd (extractSecurityAndConnection doc_distance ''Egmur'')) = None"
    by code_simp
  have h1: "header (snd (getSystemData doc_rating_9_9)) = ''Egmur, 9.9''"
    using d1 c1 r1 by (simp add: getSystemData_named [OF n1] Let_def)
  have h2: "header (snd (getSystemData doc_distance)) = ''Egmur, 2.5''"
    using d2 c2 r2 by (simp add: getSystemData_named [OF n2] Let_def)
  from h1 h2 show ?thesis by blast
qed

subsection \<open>The Destination Extractor\<close>

lemma extractDestinationFromElement_events:
  "list_all found_line (fst (extractDestinationFromElement p))"
  by (auto simp: extractDestinationFromElement_def found_line_def split: prod.splits option.splits)

lemma summaries_loop_events: "list_all found_line (fst (summaries_loop ps))"
proof (induction ps)
  case Nil
  then show ?case by simp
next
  case (Cons p ps)
  with extractDestinationFromElement_events [of p] show ?case
    by (simp add: case_prod_beta)
qed

lemma found_line_queries: "list_all found_line evs \<Longrightarrow> queries evs = []"
  by (induction evs rule: queries.induct) (auto simp: found_line_def)

lemma found_line_not:
  "list_all found_line evs \<Longrightarrow>
     Log [Str ''Trying MuiAccordion strategy...''] \<notin> set evs \<and>
     Log [Str ''Trying panel area strategy...''] \<notin> set evs"
  by (induction evs) (auto simp: found_line_def)

lemma commonHubs_loop_events:
  "list_all found_line evs \<Longrightarrow> list_all found_line (fst (commonHubs_loop e t hubs (evs, ds)))"
  by (induction hubs arbitrary: evs ds) (auto simp: found_line_def split: option.splits)

lemma allElements_loop_events:
  "list_all found_line (fst acc) \<Longrightarrow> list_all found_line (fst (allElements_loop es acc))"
proof (induction es arbitrary: acc)
  case Nil
  then show ?case by simp
next
  case (Cons e es)
  obtain evs ds where acc: "acc = (evs, ds)" by (cases acc)
  from Cons.prems have "list_all found_line
      (fst (commonHubs_loop e (trim (textContent (self e))) commonHubs (evs, ds)))"
    by (simp add: acc commonHubs_loop_events)
  from Cons.IH [OF this] show ?case by (simp add: acc)
qed

lemma panels_loop_events: "list_all found_line (fst (panels_loop ps))"
proof (induction ps)
  case Nil
  then show ?case by simp
next
  case (Cons p ps)
  have "list_all found_line (fst (extractAllDestinationsFromContainer p))"
    by (simp add: extractAllDestinationsFromContainer_def allElements_loop_events)
  with Cons show ?case by (simp add: case_prod_beta)
qed

lemma extractDestinations_unfold:
  "extractDestinations doc tab =
     ([Log [Str (''Extracting destinations from '' @ tab @ '' tab...'')],
       Query hubSummaries_selector,
       Log [Str (''Found '' @ string_of_nat (length (querySelectorAll doc hubSummaries_selector))
                 @ '' route-hub-summary elements'')]]
        @ fst (summaries_loop (querySelectorAll doc hubSummaries_selector))
        @ (if strategyA doc = []
           then Log [Str ''Trying MuiAccordion strategy...''] # Query accordions_selector
                  # fst (summaries_loop (querySelectorAll doc accordions_selector))
           else [])
        @ (if strategyA doc = [] \<and> strategyB doc = []
           then Log [Str ''Trying panel area strategy...''] # Query panels_selector
                  # fst (panels_loop (querySelectorAll doc panels_selector))
           else [])
        @ [Log [Str (''Extracted '' @ string_of_nat (length (snd (extractDestinations doc tab)))
                     @ '' destinations:''), Dests (snd (extractDestinations doc tab))]],
      if strategyA doc \<noteq> [] then strategyA doc
      else if strategyB doc \<noteq> [] then strategyB doc else strategyC doc)"
  by (simp add: extractDestinations_def strategyA_def strategyB_def strategyC_def Let_def
      case_prod_beta)

text \<open>
  C6. In \<^verbatim>\<open>extractDestinations\<close>, when strategy A (the hub-summary elements) yields at
  least one destination, neither the console line nor the document query of strategy B (the
  accordions) or of strategy C (the panels) occurs, and the result is what A yields. B runs
  exactly when A yields nothing, and C exactly when A and B both yield nothing.
\<close>

theorem destination_strategy_order:
  "(strategyA doc \<noteq> [] \<longrightarrow>
      Log [Str ''Trying MuiAccordion strategy...''] \<notin> set (fst (extractDestinations doc tab)) \<and>
      Query accordions_selector \<notin> set (fst (extractDestinations doc tab)) \<and>
      Log [Str ''Trying panel area strategy...''] \<notin> set (fst (extractDestinations doc tab)) \<and>
      Query panels_selector \<notin> set (fst (extractDestinations doc tab)) \<and>
      snd (extractDestinations doc tab) = strategyA doc) \<and>
   (Query accordions_selector \<in> set (fst (extractDestinations doc tab)) \<longleftrightarrow> strategyA doc = []) \<and>
   (Log [Str ''Trying MuiAccordion strategy...''] \<in> set (fst (extractDestinations doc tab))
      \<longleftrightarrow> strategyA doc = []) \<and>
   (Query panels_selector \<in> set (fst (extractDestinations doc tab))
      \<longleftrightarrow> strategyA doc = [] \<and> strategyB doc = []) \<and>
   (Log [Str ''Trying panel area strategy...''] \<in> set (fst (extractDestinations doc tab))
      \<longleftrightarrow> strategyA doc = [] \<and> strategyB doc = []) \<and>
   (strategyA doc = [] \<and> strategyB doc \<noteq> [] \<longrightarrow> snd (extractDestinations doc tab) = strategyB doc) \<and>
   (strategyA doc = [] \<and> strategyB doc = [] \<longrightarrow> snd (extractDestinations doc tab) = strategyC doc)"
proof -
  let ?T = "fst (extractDestinations doc tab)"
  let ?eA = "fst (summaries_loop (querySelectorAll doc hubSummaries_selector))"
  let ?eB = "fst (summaries_loop (querySelectorAll doc accordions_selector))"
  let ?eC = "fst (panels_loop (querySelectorAll doc panels_selector))"
  have fA: "list_all found_line ?eA" and fB: "list_all found_line ?eB"
    and fC: "list_all found_line ?eC"
    by (rule summaries_loop_events, rule summaries_loop_events, rule panels_loop_events)
  have sel: "accordions_selector \<noteq> hubSummaries_selector" "panels_selector \<noteq> hubSummaries_selector"
    "panels_selector \<noteq> accordions_selector"
    by (simp_all add: accordions_selector_def hubSummaries_selector_def panels_selector_def)
  have T: "?T =
     [Log [Str (''Extracting destinations from '' @ tab @ '' tab...'')],
       Query hubSummaries_selector,
       Log [Str (''Found '' @ string_of_nat (length (querySelectorAll doc hubSummaries_selector))
                 @ '' route-hub-summary elements'')]]
        @ ?eA
        @ (if strategyA doc = []
           then Log [Str ''Trying MuiAccordion strategy...''] # Query accordions_selector # ?eB
           else [])
        @ (if strategyA doc = [] \<and> strategyB doc = []
           then Log [Str ''Trying panel area strategy...''] # Query panels_selector # ?eC
           else [])
        @ [Log [Str (''Extracted '' @ string_of_nat (length (snd (extractDestinations doc tab)))
                     @ '' destinations:''), Dests (snd (extractDestinations doc tab))]]"
    by (subst extractDestinations_unfold) simp
  have R: "snd (extractDestinations doc tab) =
      (if strategyA doc \<noteq> [] then strategyA doc
       else if strategyB doc \<noteq> [] then strategyB doc else strategyC doc)"
    by (subst extractDestinations_unfold) simp
  have Q: "queries ?T = hubSummaries_selector
       # (if strategyA doc = [] then [accordions_selector] else [])
       @ (if strategyA doc = [] \<and> strategyB doc = [] then [panels_selector] else [])"
    by (subst T) (simp add: found_line_queries [OF fA] found_line_queries [OF fB]
        found_line_queries [OF fC])
  have qa: "Query accordions_selector \<in> set ?T \<longleftrightarrow> strategyA doc = []"
    using sel by (simp add: Query_in_set Q)
  have qp: "Query panels_selector \<in> set ?T \<longleftrightarrow> strategyA doc = [] \<and> strategyB doc = []"
    using sel by (simp add: Query_in_set Q)
  have la: "Log [Str ''Trying MuiAccordion strategy...''] \<in> set ?T \<longleftrightarrow> strategyA doc = []"
    using found_line_not [OF fA] found_line_not [OF fB] found_line_not [OF fC]
    by (subst T) simp
  have lp: "Log [Str ''Trying panel area strategy...''] \<in> set ?T
      \<longleftrightarrow> strategyA doc = [] \<and> strategyB doc = []"
    using found_line_not [OF fA] found_line_not [OF fB] found_line_not [OF fC]
    by (subst T) simp
  show ?thesis
    unfolding qa qp la lp R by simp
qed

theorem destination_strategy_order_witness:
  "strategyA doc_one_hub = [\<lparr>name = ''Jita'', jumps = ''14''\<rparr>] \<and>
   Query accordions_selector \<notin> set (fst (extractDestinations doc_one_hub ''SHORTEST'')) \<and>
   Query panels_selector \<notin> set (fst (extractDestinations doc_one_hub ''SHORTEST'')) \<and>
   snd (extractDestinations doc_one_hub ''SHORTEST'') = [\<lparr>name = ''Jita'', jumps = ''14''\<rparr>] \<and>
   strategyA doc_accordion = [] \<and> strategyB doc_accordion = [\<lparr>name = ''Hek'', jumps = ''16''\<rparr>] \<and>
   Query accordions_selector \<in> set (fst (extractDestinations doc_accordion ''SECURE'')) \<and>
   Query panels_selector \<notin> set (fst (extractDestinations doc_accordion ''SECURE'')) \<and>
   snd (extractDestinations doc_accordion ''SECURE'') = [\<lparr>name = ''Hek'', jumps = ''16''\<rparr>] \<and>
   strategyA doc_empty = [] \<and> strategyB doc_empty = [] \<and>
   Query panels_selector \<in> set (fst (extractDestinations doc_empty ''SHORTEST'')) \<and>
   snd (extractDestinations doc_empty ''SHORTEST'') = strategyC doc_empty"
proof -
  have a1: "strategyA doc_one_hub = [\<lparr>name = ''Jita'', jumps = ''14''\<rparr>]" by code_simp
  have a2: "strategyA doc_accordion = []" by code_simp
  have b2: "strategyB doc_accordion = [\<lparr>name = ''Hek'', jumps = ''16''\<rparr>]" by code_simp
  have a3: "strategyA doc_empty = []" by code_simp
  have b3: "strategyB doc_empty = []" by code_simp
  from destination_strategy_order [of doc_one_hub "''SHORTEST''"] a1
  have 1: "Query accordions_selector \<notin> set (fst (extractDestinations doc_one_hub ''SHORTEST'')) \<and>
   Query panels_selector \<notin> set (fst (extractDestinations doc_one_hub ''SHORTEST'')) \<and>
   snd (extractDestinations doc_one_hub ''SHORTEST'') = [\<lparr>name = ''Jita'', jumps = ''14''\<rparr>]"
    by simp
  from destination_strategy_order [of doc_accordion "''SECURE''"] a2 b2
  have 2: "Query accordions_selector \<in> set (fst (extractDestinations doc_accordion ''SECURE'')) \<and>
   Query panels_selector \<notin> set (fst (extractDestinations doc_accordion ''SECURE'')) \<and>
   snd (extractDestinations doc_accordion ''SECURE'') = [\<lparr>name = ''Hek'', jumps = ''16''\<rparr>]"
    by simp
  from destination_strategy_order [of doc_empty "''SHORTEST''"] a3 b3
  have 3: "Query panels_selector \<in> set (fst (extractDestinations doc_empty ''SHORTEST'')) \<and>
   snd (extractDestinations doc_empty ''SHORTEST'') = strategyC doc_empty"
    by simp
  from 1 2 3 a1 a2 b2 a3 b3 show ?thesis by blast
qed

lemma append_new_Nil: "append_new acc [] = acc"
  by (simp add: append_new_def)

lemma append_new_Cons:
  "append_new acc (x # xs) =
     (if name x \<in> name ` set acc then append_new acc xs else append_new (acc @ [x]) xs)"
proof (cases "name x \<in> name ` set acc")
  case True
  then show ?thesis by (simp add: append_new_def)
next
  case False
  have "filter (\<lambda>e. name e \<noteq> name x) (filter (\<lambda>d. name d \<notin> name ` set acc) xs) =
        filter (\<lambda>d. name d \<notin> name ` set (acc @ [x])) xs"
    by (induction xs) auto
  then have "keep_first (filter (\<lambda>d. name d \<notin> name ` set acc) (x # xs)) =
      x # keep_first (filter (\<lambda>d. name d \<notin> name ` set (acc @ [x])) xs)"
    using False by (simp del: filter_filter)
  with False show ?thesis by (simp add: append_new_def)
qed

lemma append_new_append: "append_new (append_new acc xs) ys = append_new acc (xs @ ys)"
  by (induction xs arbitrary: acc) (simp_all add: append_new_Nil append_new_Cons)

lemma find_name_None: "find (\<lambda>d. name d = hub) dests = None \<longleftrightarrow> hub \<notin> name ` set dests"
  by (auto simp: find_None_iff)

lemma commonHubs_loop_result:
  "snd (commonHubs_loop e t hubs (evs, acc)) = append_new acc (concat (map (found_here e t) hubs))"
proof (induction hubs arbitrary: evs acc)
  case Nil
  then show ?case by (simp add: append_new_Nil)
next
  case (Cons hub hubs)
  show ?case
  proof (cases "found_here e t hub")
    case Nil
    then have "commonHubs_loop e t (hub # hubs) (evs, acc) = commonHubs_loop e t hubs (evs, acc)"
      by (auto simp: found_here_def split: option.splits if_splits)
    with Nil show ?thesis by (simp add: Cons.IH)
  next
    case (Cons d ds)
    then obtain j where j: "t = hub" "nearby_jumps e = Some j" "j \<noteq> []"
      and fh: "found_here e t hub = [\<lparr>name = hub, jumps = j\<rparr>]"
      by (auto simp: found_here_def split: option.splits if_splits)
    show ?thesis
    proof (cases "hub \<in> name ` set acc")
      case True
      then have "find (\<lambda>d. name d = hub) acc \<noteq> None"
        using find_name_None [of hub acc] by blast
      then have step: "commonHubs_loop e t (hub # hubs) (evs, acc) = commonHubs_loop e t hubs (evs, acc)"
        using j by auto
      have "snd (commonHubs_loop e t (hub # hubs) (evs, acc)) =
          append_new acc (concat (map (found_here e t) hubs))"
        unfolding step by (rule Cons.IH)
      also have "\<dots> = append_new acc (concat (map (found_here e t) (hub # hubs)))"
        using True by (simp add: fh append_new_Cons)
      finally show ?thesis .
    next
      case False
      then have "find (\<lambda>d. name d = hub) acc = None"
        using find_name_None [of hub acc] by blast
      then have step: "commonHubs_loop e t (hub # hubs) (evs, acc) =
          commonHubs_loop e t hubs
            (evs @ [Log [Str (''  Found: '' @ hub @ '' - '' @ j @ '' jumps'')]],
             acc @ [\<lparr>name = hub, jumps = j\<rparr>])"
        using j by simp
      have "snd (commonHubs_loop e t (hub # hubs) (evs, acc)) =
          append_new (acc @ [\<lparr>name = hub, jumps = j\<rparr>]) (concat (map (found_here e t) hubs))"
        unfolding step by (rule Cons.IH)
      also have "\<dots> = append_new acc (concat (map (found_here e t) (hub # hubs)))"
        using False by (simp add: fh append_new_Cons)
      finally show ?thesis .
    qed
  qed
qed

lemma allElements_loop_result:
  "snd (allElements_loop es (evs, acc)) = append_new acc (concat (map discoveries_at es))"
proof (induction es arbitrary: evs acc)
  case Nil
  then show ?case by (simp add: append_new_Nil)
next
  case (Cons e es)
  obtain evs' acc' where c:
    "commonHubs_loop e (trim (textContent (self e))) commonHubs (evs, acc) = (evs', acc')"
    by (cases "commonHubs_loop e (trim (textContent (self e))) commonHubs (evs, acc)")
  with commonHubs_loop_result [of e "trim (textContent (self e))" commonHubs evs acc]
  have acc': "acc' = append_new acc (discoveries_at e)"
    by (simp add: discoveries_at_def)
  show ?case
    by (simp add: c Cons.IH acc' append_new_append)
qed

lemma extractAll_keep_first:
  "snd (extractAllDestinationsFromContainer c) = keep_first (discoveries c)"
  by (simp add: extractAllDestinationsFromContainer_def allElements_loop_result discoveries_def
      append_new_def)

lemma keep_first_subset: "set (keep_first ds) \<subseteq> set ds"
  by (induction ds rule: keep_first.induct) auto

lemma keep_first_distinct: "distinct (map name (keep_first ds))"
proof (induction ds rule: keep_first.induct)
  case 1
  then show ?case by simp
next
  case (2 d ds)
  have "name d \<notin> name ` set (keep_first (filter (\<lambda>e. name e \<noteq> name d) ds))"
    using keep_first_subset [of "filter (\<lambda>e. name e \<noteq> name d) ds"] by auto
  with 2 show ?case by simp
qed

lemma keep_first_subseq: "subseq (keep_first ds) ds"
proof (induction ds rule: keep_first.induct)
  case 1
  then show ?case by simp
next
  case (2 d ds)
  have "subseq (filter (\<lambda>e. name e \<noteq> name d) ds) ds" by simp
  with 2 have "subseq (keep_first (filter (\<lambda>e. name e \<noteq> name d) ds)) ds"
    using subseq_order.trans by blast
  then show ?case by simp
qed

lemma find_filter_weaker:
  "(\<And>e. P e \<Longrightarrow> Q e) \<Longrightarrow> find P (filter Q xs) = find P xs"
  by (induction xs) auto

lemma keep_first_is_first:
  "d \<in> set (keep_first ds) \<Longrightarrow> find (\<lambda>e. name e = name d) ds = Some d"
proof (induction ds rule: keep_first.induct)
  case 1
  then show ?case by simp
next
  case (2 x xs)
  show ?case
  proof (cases "d = x")
    case True
    then show ?thesis by simp
  next
    case False
    with "2.prems" have m: "d \<in> set (keep_first (filter (\<lambda>e. name e \<noteq> name x) xs))" by simp
    with keep_first_subset have "d \<in> set (filter (\<lambda>e. name e \<noteq> name x) xs)" by blast
    then have nx: "name d \<noteq> name x" by simp
    from "2.IH" [OF m] have "find (\<lambda>e. name e = name d) (filter (\<lambda>e. name e \<noteq> name x) xs) = Some d" .
    moreover have "find (\<lambda>e. name e = name d) (filter (\<lambda>e. name e \<noteq> name x) xs)
        = find (\<lambda>e. name e = name d) xs"
      using nx by (intro find_filter_weaker) auto
    ultimately show ?thesis using nx by auto
  qed
qed

text \<open>
  What the duplicate check of the code does achieve, inside one container scan of
  strategy C: the destinations \<^verbatim>\<open>extractAllDestinationsFromContainer\<close> returns for a
  container never hold two entries with the same name; they are what the scan discovers with
  only the first occurrence of every name kept, so the first-discovered entry wins with its
  jump count, and the order of discovery is preserved.
\<close>

lemma container_scan_dedup:
  "distinct (map name (snd (extractAllDestinationsFromContainer c))) \<and>
   snd (extractAllDestinationsFromContainer c) = keep_first (discoveries c) \<and>
   subseq (snd (extractAllDestinationsFromContainer c)) (discoveries c) \<and>
   (\<forall>d \<in> set (snd (extractAllDestinationsFromContainer c)).
      find (\<lambda>e. name e = name d) (discoveries c) = Some d)"
  by (simp add: extractAll_keep_first keep_first_distinct keep_first_subseq keep_first_is_first)

lemma container_scan_dedup_example:
  "discoveries panel_two_jita =
     [\<lparr>name = ''Jita'', jumps = ''14''\<rparr>, \<lparr>name = ''Jita'', jumps = ''16''\<rparr>,
      \<lparr>name = ''Hek'', jumps = ''5''\<rparr>] \<and>
   snd (extractAllDestinationsFromContainer panel_two_jita) =
     [\<lparr>name = ''Jita'', jumps = ''14''\<rparr>, \<lparr>name = ''Hek'', jumps = ''5''\<rparr>] \<and>
   \<lparr>name = ''Jita'', jumps = ''14''\<rparr> \<in> set (snd (extractAllDestinationsFromContainer panel_two_jita)) \<and>
   find (\<lambda>e. name e = ''Jita'') (discoveries panel_two_jita) = Some \<lparr>name = ''Jita'', jumps = ''14''\<rparr>"
proof -
  have d: "discoveries panel_two_jita =
     [\<lparr>name = ''Jita'', jumps = ''14''\<rparr>, \<lparr>name = ''Jita'', jumps = ''16''\<rparr>,
      \<lparr>name = ''Hek'', jumps = ''5''\<rparr>]" by code_simp
  from container_scan_dedup [of panel_two_jita]
  have k: "snd (extractAllDestinationsFromContainer panel_two_jita) = keep_first (discoveries panel_two_jita)"
    and f: "\<forall>d \<in> set (snd (extractAllDestinationsFromContainer panel_two_jita)).
      find (\<lambda>e. name e = name d) (discoveries panel_two_jita) = Some d"
    by blast+
  have r: "snd (extractAllDestinationsFromContainer panel_two_jita) =
     [\<lparr>name = ''Jita'', jumps = ''14''\<rparr>, \<lparr>name = ''Hek'', jumps = ''5''\<rparr>]"
    unfolding k d by simp
  have m: "\<lparr>name = ''Jita'', jumps = ''14''\<rparr> \<in> set (snd (extractAllDestinationsFromContainer panel_two_jita))"
    unfolding r by simp
  from f m have "find (\<lambda>e. name e = name \<lparr>name = ''Jita'', jumps = ''14''\<rparr>) (discoveries panel_two_jita)
      = Some \<lparr>name = ''Jita'', jumps = ''14''\<rparr>" by blast
  with d r m show ?thesis by simp
qed


subsection \<open>The delivery guard\<close>

lemma guard_invariant_opened: "guard_invariant (popup_opened u h n)"
  by (simp add: guard_invariant_def popup_opened_def)

lemma guard_invariant_click: "guard_invariant s \<Longrightarrow> guard_invariant (discord_click now s)"
  by (auto simp: guard_invariant_def discord_click_def Let_def)

lemma length_le_1_remove:
  "length xs \<le> 1 \<Longrightarrow> i < length xs \<Longrightarrow> take i xs @ drop (Suc i) xs = []"
  by (cases xs) auto

lemma discord_settled_fields:
  assumes "i < length (outstanding s)"
  shows "isSendingToDiscord (discord_settled i r s) = False"
    and "outstanding (discord_settled i r s) = take i (outstanding s) @ drop (Suc i) (outstanding s)"
    and "outbound (discord_settled i r s) = outbound s"
    and "webhookUrlInput (discord_settled i r s) = webhookUrlInput s"
    and "headerData (discord_settled i r s) = headerData s"
    and "number (discord_settled i r s) = number s"
  using assms
  by (simp_all add: discord_settled_def Let_def case_prod_beta split: option.splits)

lemma guard_invariant_settled: "guard_invariant s \<Longrightarrow> guard_invariant (discord_settled i r s)"
proof (cases "i < length (outstanding s)")
  case True
  assume "guard_invariant s"
  with True length_le_1_remove [of "outstanding s" i] show ?thesis
    by (simp add: guard_invariant_def discord_settled_fields [OF True])
next
  case False
  assume "guard_invariant s"
  with False show ?thesis by (simp add: discord_settled_def)
qed

lemma guard_invariant_step: "guard_invariant s \<Longrightarrow> guard_invariant (step s h)"
  by (cases h) (simp_all add: guard_invariant_click guard_invariant_settled,
      simp add: guard_invariant_def)

lemma guard_invariant_run: "guard_invariant s \<Longrightarrow> guard_invariant (run s hs)"
  unfolding run_def by (induction hs arbitrary: s) (simp_all add: guard_invariant_step)

text \<open>
  C9. In every state an opened popup can reach: while a call is outstanding, a click on the
  Discord button changes nothing but the console, to which it adds one line, so it starts no
  call, queues none and shows no alert; and when an outstanding call is answered, by a
  success or by any failure, the guard \<^verbatim>\<open>isSendingToDiscord\<close> is false afterwards, no call
  is outstanding or started by the answer, and the next click with a webhook that is not
  blank starts a call.
\<close>

theorem in_flight_guard:
  assumes "s = run (popup_opened u h n) hs"
  shows "(outstanding s \<noteq> [] \<longrightarrow>
            discord_click now s =
              s\<lparr>console := console s @ [Log [Str ''Message is already being sent. Please wait.'']]\<rparr>) \<and>
         (i < length (outstanding s) \<longrightarrow>
            \<not> isSendingToDiscord (discord_settled i r s) \<and>
            outstanding (discord_settled i r s) = [] \<and>
            outbound (discord_settled i r s) = outbound s \<and>
            (trim (webhookUrlInput s) \<noteq> [] \<longrightarrow>
               outbound (discord_click now (discord_settled i r s)) =
                 outbound s @ [\<lparr>url = webhookUrlInput s,
                                content = fullText (headerData s) (number s),
                                requestId = now\<rparr>]))"
proof -
  have inv: "guard_invariant s"
    unfolding assms by (rule guard_invariant_run) (rule guard_invariant_opened)
  have a: "outstanding s \<noteq> [] \<longrightarrow>
            discord_click now s =
              s\<lparr>console := console s @ [Log [Str ''Message is already being sent. Please wait.'']]\<rparr>"
    using inv by (simp add: guard_invariant_def discord_click_def)
  have b: "i < length (outstanding s) \<longrightarrow>
            \<not> isSendingToDiscord (discord_settled i r s) \<and>
            outstanding (discord_settled i r s) = [] \<and>
            outbound (discord_settled i r s) = outbound s \<and>
            (trim (webhookUrlInput s) \<noteq> [] \<longrightarrow>
               outbound (discord_click now (discord_settled i r s)) =
                 outbound s @ [\<lparr>url = webhookUrlInput s,
                                content = fullText (headerData s) (number s),
                                requestId = now\<rparr>])"
  proof
    assume i: "i < length (outstanding s)"
    have e: "outstanding (discord_settled i r s) = []"
      using inv i length_le_1_remove [of "outstanding s" i]
      by (simp add: discord_settled_fields [OF i] guard_invariant_def)
    have u: "trim (webhookUrlInput s) \<noteq> [] \<Longrightarrow> webhookUrlInput s \<noteq> []"
      by (auto simp: trim_def)
    show "\<not> isSendingToDiscord (discord_settled i r s) \<and>
            outstanding (discord_settled i r s) = [] \<and>
            outbound (discord_settled i r s) = outbound s \<and>
            (trim (webhookUrlInput s) \<noteq> [] \<longrightarrow>
               outbound (discord_click now (discord_settled i r s)) =
                 outbound s @ [\<lparr>url = webhookUrlInput s,
                                content = fullText (headerData s) (number s),
                                requestId = now\<rparr>])"
      using e u by (auto simp: discord_click_def Let_def discord_settled_fields [OF i])
  qed
  from a b show ?thesis by blast
qed

lemma run_click_egmur:
  "run popup_egmur [Click 1] =
     popup_egmur\<lparr>isSendingToDiscord := True, lastRequestId := Some 1,
       outbound := [\<lparr>url = ''https://discord.example/api/webhooks/1'',
                     content = ''Egmur, 0.7, C4, Jita 14, Hek 16'', requestId = 1\<rparr>],
       outstanding := [\<lparr>url = ''https://discord.example/api/webhooks/1'',
                     content = ''Egmur, 0.7, C4, Jita 14, Hek 16'', requestId = 1\<rparr>],
       console := [Log [Str ''Starting to send message to Discord...'', Num 1],
                   Log [Str ''Request to send message initiated:'', Num 1]]\<rparr>"
  by (simp add: run_def popup_egmur_def popup_opened_def discord_click_def Let_def trim_def
      is_space_def fullText_def)

theorem in_flight_guard_witness:
  "outstanding (run popup_egmur [Click 1]) \<noteq> [] \<and>
   outbound (discord_click 2 (run popup_egmur [Click 1])) = outbound (run popup_egmur [Click 1]) \<and>
   alerts (discord_click 2 (run popup_egmur [Click 1])) = [] \<and>
   0 < length (outstanding (run popup_egmur [Click 1])) \<and>
   trim (webhookUrlInput (run popup_egmur [Click 1])) \<noteq> [] \<and>
   \<not> isSendingToDiscord (discord_settled 0 TransportFailure (run popup_egmur [Click 1])) \<and>
   \<not> isSendingToDiscord (discord_settled 0 (Response 204 None False) (run popup_egmur [Click 1])) \<and>
   length (outbound (discord_click 2
     (discord_settled 0 (Response 500 None False) (run popup_egmur [Click 1])))) = 2"
proof -
  let ?s = "run popup_egmur [Click 1]"
  have s: "?s = run (popup_opened ''https://discord.example/api/webhooks/1''
       ''Egmur, 0.7, C4,'' ''Jita 14, Hek 16'') [Click 1]"
    by (simp add: popup_egmur_def)
  have o: "outstanding ?s \<noteq> []" "0 < length (outstanding ?s)" "length (outbound ?s) = 1"
    "alerts ?s = []"
    unfolding run_click_egmur by (simp_all add: popup_egmur_def popup_opened_def)
  have t: "trim (webhookUrlInput ?s) \<noteq> []"
    unfolding run_click_egmur by (simp add: popup_egmur_def popup_opened_def trim_def is_space_def)
  from in_flight_guard [OF s, of 2 0 TransportFailure] o
  have 1: "discord_click 2 ?s =
      ?s\<lparr>console := console ?s @ [Log [Str ''Message is already being sent. Please wait.'']]\<rparr>"
    and 2: "\<not> isSendingToDiscord (discord_settled 0 TransportFailure ?s)"
    by blast+
  from in_flight_guard [OF s, of 2 0 "Response 204 None False"] o
  have 3: "\<not> isSendingToDiscord (discord_settled 0 (Response 204 None False) ?s)"
    by blast
  from in_flight_guard [OF s, of 2 0 "Response 500 None False"] o t
  have 4: "outbound (discord_click 2 (discord_settled 0 (Response 500 None False) ?s)) =
      outbound ?s @ [\<lparr>url = webhookUrlInput ?s, content = fullText (headerData ?s) (number ?s),
                       requestId = 2\<rparr>]"
    by blast
  have 5: "outbound (discord_click 2 ?s) = outbound ?s" "alerts (discord_click 2 ?s) = []"
    unfolding 1 using o by simp_all
  from 2 3 4 5 o t show ?thesis by simp
qed

text \<open>
  C10, as the code has it. When the button is clicked while no delivery is in flight and the
  webhook input is empty or white space only, no call is started, the operator is alerted,
  the guard is false when the handler returns, and the displayed header and destinations are
  unchanged.
\<close>

theorem blank_webhook_click:
  assumes "\<not> isSendingToDiscord s" and "trim (webhookUrlInput s) = []"
  shows "outbound (discord_click now s) = outbound s \<and>
         outstanding (discord_click now s) = outstanding s \<and>
         alerts (discord_click now s) = alerts s @ [''Please enter a Discord Webhook URL first!''] \<and>
         \<not> isSendingToDiscord (discord_click now s) \<and>
         headerData (discord_click now s) = headerData s \<and>
         number (discord_click now s) = number s"
  using assms by (simp add: discord_click_def Let_def)

theorem blank_webhook_click_witness:
  "\<not> isSendingToDiscord (popup_opened ''  '' ''Egmur, 0.7, C4,'' ''Jita 14'') \<and>
   trim (webhookUrlInput (popup_opened ''  '' ''Egmur, 0.7, C4,'' ''Jita 14'')) = [] \<and>
   outbound (discord_click 1 (popup_opened ''  '' ''Egmur, 0.7, C4,'' ''Jita 14'')) = [] \<and>
   alerts (discord_click 1 (popup_opened ''  '' ''Egmur, 0.7, C4,'' ''Jita 14'')) =
     [''Please enter a Discord Webhook URL first!'']"
proof -
  let ?s = "popup_opened ''  '' ''Egmur, 0.7, C4,'' ''Jita 14''"
  have a: "\<not> isSendingToDiscord ?s" by (simp add: popup_opened_def)
  have b: "trim (webhookUrlInput ?s) = []" by (simp add: popup_opened_def trim_def is_space_def)
  have c: "outbound ?s = []" "alerts ?s = []" by (simp_all add: popup_opened_def)
  from blank_webhook_click [OF a b, of 1] a b c show ?thesis by simp
qed

text \<open>C10 as stated fails: when the operator empties the webhook input while a call is
  outstanding, the next click shows no alert and leaves the guard set.\<close>

theorem blank_webhook_in_flight_counterexample:
  "outstanding (run popup_egmur [Click 1, EditWebhook '''']) \<noteq> [] \<and>
   webhookUrlInput (run popup_egmur [Click 1, EditWebhook '''']) = [] \<and>
   alerts (discord_click 2 (run popup_egmur [Click 1, EditWebhook ''''])) = [] \<and>
   isSendingToDiscord (discord_click 2 (run popup_egmur [Click 1, EditWebhook '''']))"
proof -
  have "run popup_egmur [Click 1, EditWebhook ''''] = (run popup_egmur [Click 1])\<lparr>webhookUrlInput := []\<rparr>"
    by (simp add: run_def)
  then show ?thesis
    unfolding run_click_egmur by (simp add: popup_egmur_def popup_opened_def discord_click_def)
qed

end
